theory Spec2Isabelle
  imports Complex_Main "HOL-Library.AList"
begin

section \<open>Go maps, slices and panics\<close>

text \<open>
  The aggregation code of \<^verbatim>\<open>db/rows.go\<close> works on nested Go maps. A Go map value is
  either \<^verbatim>\<open>nil\<close> or a reference to a table of entries. Reading a missing key (or any key
  of a nil map) yields the zero value of the element type; assigning into a nil map
  panics with "assignment to entry in nil map". A table is kept as an association list
  with \<open>AList.update\<close> as the assignment, so that \<^verbatim>\<open>range\<close> can be run over it
  (Go leaves the iteration order open; the list order is one of the admissible orders).

  Go maps are references: \<^verbatim>\<open>q[a][b] = v\<close> mutates the inner map that \<^verbatim>\<open>q[a]\<close> refers to.
  The inner maps of this program are created by \<^verbatim>\<open>InitialiseForDate\<close> only, each bound to
  one key, so no two keys share an inner map and the mutation is modelled by storing the
  updated inner map back under its key.
\<close>

datatype ('k, 'v) gomap = NilMap | GoMap "('k \<times> 'v) list"

text \<open>Panics and error values. \<open>StorageError\<close> stands for any error the database driver
  returns other than \<^verbatim>\<open>sql.ErrNoRows\<close>.\<close>

datatype error =
    AssignToEntryInNilMap
  | NilPointerDereference
  | InvalidReportingFilter string
  | StorageError
  | ErrNoRows
  | ParseQueryError
  | GatewayError

text \<open>The comma-ok form \<^verbatim>\<open>v, ok := m[k]\<close>.\<close>

fun lookup :: "('k, 'v) gomap \<Rightarrow> 'k \<Rightarrow> 'v option" where
  "lookup NilMap k = None"
| "lookup (GoMap kvs) k = map_of kvs k"

text \<open>\<^verbatim>\<open>m[k]\<close> as an expression, for an element type that is a map (zero value nil) and
  for an element type that is a slice (zero value nil, which has length 0 and to which
  \<^verbatim>\<open>append\<close> works as to an empty slice).\<close>

definition index :: "('k, ('a, 'b) gomap) gomap \<Rightarrow> 'k \<Rightarrow> ('a, 'b) gomap" where
  "index m k = (case lookup m k of None \<Rightarrow> NilMap | Some v \<Rightarrow> v)"

definition index_slice :: "('k, 'a list) gomap \<Rightarrow> 'k \<Rightarrow> 'a list" where
  "index_slice m k = (case lookup m k of None \<Rightarrow> [] | Some v \<Rightarrow> v)"

text \<open>\<^verbatim>\<open>m[k] = v\<close>, and the nested forms \<^verbatim>\<open>q[a][b] = v\<close>, \<^verbatim>\<open>q[a][b][c] = v\<close>,
  \<^verbatim>\<open>q[a][b][c][d] = v\<close>: the innermost map is read with \<open>index\<close>, assigned into, and
  the change is seen through the outer maps.\<close>

fun assign :: "('k, 'v) gomap \<Rightarrow> 'k \<Rightarrow> 'v \<Rightarrow> error + ('k, 'v) gomap" where
  "assign NilMap k v = Inl AssignToEntryInNilMap"
| "assign (GoMap kvs) k v = Inr (GoMap (AList.update k v kvs))"

definition assign2 ::
  "('a, ('b, 'v) gomap) gomap \<Rightarrow> 'a \<Rightarrow> 'b \<Rightarrow> 'v \<Rightarrow> error + ('a, ('b, 'v) gomap) gomap" where
  "assign2 q a b v =
     (case assign (index q a) b v of Inl e \<Rightarrow> Inl e | Inr inner \<Rightarrow> assign q a inner)"

definition assign3 ::
  "('a, ('b, ('c, 'v) gomap) gomap) gomap \<Rightarrow> 'a \<Rightarrow> 'b \<Rightarrow> 'c \<Rightarrow> 'v
     \<Rightarrow> error + ('a, ('b, ('c, 'v) gomap) gomap) gomap" where
  "assign3 q a b c v =
     (case assign2 (index q a) b c v of Inl e \<Rightarrow> Inl e | Inr inner \<Rightarrow> assign q a inner)"

definition assign4 ::
  "('a, ('b, ('c, ('d, 'v) gomap) gomap) gomap) gomap \<Rightarrow> 'a \<Rightarrow> 'b \<Rightarrow> 'c \<Rightarrow> 'd \<Rightarrow> 'v
     \<Rightarrow> error + ('a, ('b, ('c, ('d, 'v) gomap) gomap) gomap) gomap" where
  "assign4 q a b c d v =
     (case assign3 (index q a) b c d v of Inl e \<Rightarrow> Inl e | Inr inner \<Rightarrow> assign q a inner)"

section \<open>The nested temperature result\<close>

text \<open>
  \<^verbatim>\<open>float64\<close> samples are modelled as extended reals with a not-a-number value: the
  finite values are real numbers (rounding and signed zeros are left out), and the
  operations follow IEEE 754 on the infinities and on NaN, so that a division by zero
  is a value of the model as it is in Go, and not the \<open>x / 0 = 0\<close> of HOL.
\<close>

datatype float64 = Fin real | PosInf | NegInf | NaN

fun fadd :: "float64 \<Rightarrow> float64 \<Rightarrow> float64" where
  "fadd NaN _ = NaN"
| "fadd _ NaN = NaN"
| "fadd (Fin a) (Fin b) = Fin (a + b)"
| "fadd PosInf NegInf = NaN"
| "fadd NegInf PosInf = NaN"
| "fadd PosInf _ = PosInf"
| "fadd NegInf _ = NegInf"
| "fadd (Fin a) PosInf = PosInf"
| "fadd (Fin a) NegInf = NegInf"

fun fdiv :: "float64 \<Rightarrow> float64 \<Rightarrow> float64" where
  "fdiv NaN _ = NaN"
| "fdiv _ NaN = NaN"
| "fdiv (Fin a) (Fin b) =
     (if b = 0 then (if a = 0 then NaN else if 0 < a then PosInf else NegInf)
      else Fin (a / b))"
| "fdiv (Fin a) _ = Fin 0"
| "fdiv PosInf (Fin b) = (if 0 \<le> b then PosInf else NegInf)"
| "fdiv NegInf (Fin b) = (if 0 \<le> b then NegInf else PosInf)"
| "fdiv _ _ = NaN"

text \<open>The conversion \<^verbatim>\<open>float64(n)\<close> of a counter.\<close>

definition float64_of_int :: "nat \<Rightarrow> float64" where
  "float64_of_int n = Fin (real n)"

type_synonym TemperatureQueries = "float64 list"
type_synonym DailyTemperatureQuery = "(int, TemperatureQueries) gomap"
type_synonym MonthlyTemperatureQuery = "(int, DailyTemperatureQuery) gomap"
type_synonym YearlyTemperatureQuery = "(int, MonthlyTemperatureQuery) gomap"
type_synonym LocationTemperatureQueryResult = "(string, YearlyTemperatureQuery) gomap"

text \<open>
  \<^verbatim>\<open>InitialiseForDate\<close>: four existence checks, each followed by the assignment of a fresh
  empty map (an empty slice at the day level) when the key is missing. The result is
  the receiver after the call, or the panic of an assignment into a nil map.
\<close>

definition InitialiseForDate ::
  "LocationTemperatureQueryResult \<Rightarrow> string \<Rightarrow> int \<Rightarrow> int \<Rightarrow> int
     \<Rightarrow> error + LocationTemperatureQueryResult" where
  "InitialiseForDate q city y mo d =
     (case (if lookup q city = None then assign q city (GoMap []) else Inr q) of
        Inl e \<Rightarrow> Inl e
      | Inr q1 \<Rightarrow>
     (case (if lookup (index q1 city) y = None
            then assign2 q1 city y (GoMap []) else Inr q1) of
        Inl e \<Rightarrow> Inl e
      | Inr q2 \<Rightarrow>
     (case (if lookup (index (index q2 city) y) mo = None
            then assign3 q2 city y mo (GoMap []) else Inr q2) of
        Inl e \<Rightarrow> Inl e
      | Inr q3 \<Rightarrow>
        (if lookup (index (index (index q3 city) y) mo) d = None
         then assign4 q3 city y mo d [] else Inr q3))))"

text \<open>
  \<^verbatim>\<open>Add\<close>: \<^verbatim>\<open>q[city][y][mo][d] = append(q[city][y][mo][d], temp)\<close>. The reads on the
  right never panic; the assignment panics when \<^verbatim>\<open>q[city][y][mo]\<close> is nil.
\<close>

definition Add ::
  "LocationTemperatureQueryResult \<Rightarrow> float64 \<Rightarrow> string \<Rightarrow> int \<Rightarrow> int \<Rightarrow> int
     \<Rightarrow> error + LocationTemperatureQueryResult" where
  "Add q temp city y mo d =
     assign4 q city y mo d (index_slice (index (index (index q city) y) mo) d @ [temp])"

text \<open>Reading along a path: the month map \<^verbatim>\<open>q[city][y][mo]\<close> and the comma-ok lookup
  of the leaf \<^verbatim>\<open>q[city][y][mo][d]\<close>.\<close>

definition month_bucket ::
  "LocationTemperatureQueryResult \<Rightarrow> string \<Rightarrow> int \<Rightarrow> int \<Rightarrow> DailyTemperatureQuery" where
  "month_bucket q city y mo = index (index (index q city) y) mo"

definition leaf ::
  "LocationTemperatureQueryResult \<Rightarrow> string \<Rightarrow> int \<Rightarrow> int \<Rightarrow> int
     \<Rightarrow> TemperatureQueries option" where
  "leaf q city y mo d = lookup (month_bucket q city y mo) d"

text \<open>
  The shape of every result this program builds: no map on any level is nil and no key
  occurs twice in a table. \<open>entries\<close> lists what \<^verbatim>\<open>range\<close> iterates over.
\<close>

fun entries :: "('k, 'v) gomap \<Rightarrow> ('k \<times> 'v) list" where
  "entries NilMap = []"
| "entries (GoMap kvs) = kvs"

definition good :: "('k, 'v) gomap \<Rightarrow> bool" where
  "good m \<longleftrightarrow> m \<noteq> NilMap \<and> distinct (map fst (entries m))"

definition wf_months :: "MonthlyTemperatureQuery \<Rightarrow> bool" where
  "wf_months mq \<longleftrightarrow> good mq \<and> (\<forall>(mo, dq) \<in> set (entries mq). good dq)"

definition wf_years :: "YearlyTemperatureQuery \<Rightarrow> bool" where
  "wf_years yq \<longleftrightarrow> good yq \<and> (\<forall>(y, mq) \<in> set (entries yq). wf_months mq)"

definition wellformed :: "LocationTemperatureQueryResult \<Rightarrow> bool" where
  "wellformed q \<longleftrightarrow> good q \<and> (\<forall>(city, yq) \<in> set (entries q). wf_years yq)"

text \<open>\<^verbatim>\<open>q[city][y][mo][d]\<close> as an expression: the stored samples, the nil slice when the
  path is missing.\<close>

definition stored ::
  "LocationTemperatureQueryResult \<Rightarrow> string \<Rightarrow> int \<Rightarrow> int \<Rightarrow> int \<Rightarrow> TemperatureQueries" where
  "stored q city y mo d = index_slice (month_bucket q city y mo) d"

section \<open>The temperature folds\<close>

text \<open>
  What the store returns for a \<^verbatim>\<open>Query\<close>: an error, or a result set; each \<^verbatim>\<open>rows.Scan\<close> of
  the loop either fails or fills the row variables. A nullable column is an \<open>option\<close>
  (\<^verbatim>\<open>sql.NullString\<close>, \<^verbatim>\<open>sql.NullInt64\<close>, \<^verbatim>\<open>sql.NullFloat64\<close> with their \<^verbatim>\<open>Valid\<close>
  flag). Of the timestamp \<^verbatim>\<open>t\<close> of a row the folds read \<^verbatim>\<open>t.Date()\<close> only, so the row
  carries that triple (year, month number, day).
\<close>

datatype 'r scanned = ScanError | Scanned 'r

datatype 'r query_result = QueryError | Rows "'r scanned list"

record temperature_row =
  r_cname :: "string option"
  r_id :: "int option"
  r_t :: "int \<times> int \<times> int"
  r_temp :: "float64 option"
  r_lid :: "int option"

type_synonym TemperatureQueryFilter = string

definition FilterLows :: TemperatureQueryFilter where "FilterLows = ''lows''"
definition FilterHighs :: TemperatureQueryFilter where "FilterHighs = ''highs''"
definition FilterAverages :: TemperatureQueryFilter where "FilterAverages = ''avgs''"

text \<open>The \<^verbatim>\<open>for rows.Next()\<close> loop of \<^verbatim>\<open>MonthlyTemperature\<close>, on the map \<^verbatim>\<open>temps\<close>.\<close>

fun MonthlyTemperature_rows ::
  "LocationTemperatureQueryResult \<Rightarrow> temperature_row scanned list
     \<Rightarrow> error + LocationTemperatureQueryResult" where
  "MonthlyTemperature_rows temps [] = Inr temps"
| "MonthlyTemperature_rows temps (ScanError # rows) = Inl StorageError"
| "MonthlyTemperature_rows temps (Scanned r # rows) =
     (case r_cname r of
        None \<Rightarrow> MonthlyTemperature_rows temps rows
      | Some city \<Rightarrow>
          (case r_t r of (y, mo, d) \<Rightarrow>
            (case InitialiseForDate temps city y mo d of
               Inl e \<Rightarrow> Inl e
             | Inr temps1 \<Rightarrow>
                 (case r_temp r of
                    None \<Rightarrow> MonthlyTemperature_rows temps1 rows
                  | Some v \<Rightarrow>
                      (case Add temps1 v city y mo d of
                         Inl e \<Rightarrow> Inl e
                       | Inr temps2 \<Rightarrow> MonthlyTemperature_rows temps2 rows)))))"

text \<open>
  \<^verbatim>\<open>MonthlyTemperature\<close>. The filter picks the column (\<^verbatim>\<open>param\<close>) that is put into
  the query text; the store answers each of the two possible queries with a result set.
\<close>

record temperature_store =
  q_temp_low :: "temperature_row query_result"
  q_temp_high :: "temperature_row query_result"

definition Query_temperature ::
  "temperature_store \<Rightarrow> string \<Rightarrow> temperature_row query_result" where
  "Query_temperature store param =
     (if param = ''temp_low'' then q_temp_low store else q_temp_high store)"

definition MonthlyTemperature ::
  "temperature_store \<Rightarrow> TemperatureQueryFilter \<Rightarrow> error + LocationTemperatureQueryResult" where
  "MonthlyTemperature store f =
     (case (if f = FilterLows then Inr ''temp_low''
            else if f = FilterHighs then Inr ''temp_high''
            else Inl (InvalidReportingFilter f)) of
        Inl e \<Rightarrow> Inl e
      | Inr param \<Rightarrow>
          (case Query_temperature store param of
             QueryError \<Rightarrow> Inl StorageError
           | Rows rows \<Rightarrow> MonthlyTemperature_rows (GoMap []) rows))"

record average_row =
  a_cname :: "string option"
  a_id :: "int option"
  a_t :: "int \<times> int \<times> int"
  a_templo :: "float64 option"
  a_temphi :: "float64 option"
  a_lid :: "int option"

text \<open>The first loop of \<^verbatim>\<open>MonthlyAverageTemperature\<close>, on the map \<^verbatim>\<open>dailyAvgTemps\<close>.\<close>

fun MonthlyAverageTemperature_rows ::
  "LocationTemperatureQueryResult \<Rightarrow> average_row scanned list
     \<Rightarrow> error + LocationTemperatureQueryResult" where
  "MonthlyAverageTemperature_rows dailyAvgTemps [] = Inr dailyAvgTemps"
| "MonthlyAverageTemperature_rows dailyAvgTemps (ScanError # rows) = Inl StorageError"
| "MonthlyAverageTemperature_rows dailyAvgTemps (Scanned r # rows) =
     (case a_cname r of
        None \<Rightarrow> MonthlyAverageTemperature_rows dailyAvgTemps rows
      | Some city \<Rightarrow>
          (case a_t r of (y, mo, d) \<Rightarrow>
            (case InitialiseForDate dailyAvgTemps city y mo d of
               Inl e \<Rightarrow> Inl e
             | Inr daily1 \<Rightarrow>
                 (if a_templo r = None \<or> a_temphi r = None
                  then MonthlyAverageTemperature_rows daily1 rows
                  else
                    (case Add daily1
                            (fdiv (fadd (the (a_templo r)) (the (a_temphi r))) (Fin 2))
                            city y mo d of
                       Inl e \<Rightarrow> Inl e
                     | Inr daily2 \<Rightarrow> MonthlyAverageTemperature_rows daily2 rows)))))"

text \<open>
  The averaging loops. \<^verbatim>\<open>avg\<close>, \<^verbatim>\<open>samplesPerMonth\<close> and \<^verbatim>\<open>samplesPerDay\<close> are declared
  once per month, before the loop over the days: \<^verbatim>\<open>samplesPerMonth\<close> counts the day
  buckets of the month, \<^verbatim>\<open>samplesPerDay\<close> and \<^verbatim>\<open>avg\<close> run over all samples of all days of
  the month, and the two divisions come after the loop over the days. The counters are
  Go \<^verbatim>\<open>int\<close>s that only count up from 0; they are natural numbers here.
\<close>

fun day_samples :: "float64 \<times> nat \<Rightarrow> TemperatureQueries \<Rightarrow> float64 \<times> nat" where
  "day_samples (avg, samplesPerDay) [] = (avg, samplesPerDay)"
| "day_samples (avg, samplesPerDay) (temp # day) =
     day_samples (fadd avg temp, samplesPerDay + 1) day"

fun month_days ::
  "float64 \<times> nat \<times> nat \<Rightarrow> (int \<times> TemperatureQueries) list \<Rightarrow> float64 \<times> nat \<times> nat" where
  "month_days (avg, samplesPerMonth, samplesPerDay) [] = (avg, samplesPerMonth, samplesPerDay)"
| "month_days (avg, samplesPerMonth, samplesPerDay) ((d, day) # month) =
     (case day_samples (avg, samplesPerDay) day of
        (avg', samplesPerDay') \<Rightarrow> month_days (avg', samplesPerMonth + 1, samplesPerDay') month)"

definition month_avg :: "DailyTemperatureQuery \<Rightarrow> float64" where
  "month_avg month =
     (case month_days (Fin 0, 0, 0) (entries month) of
        (avg, samplesPerMonth, samplesPerDay) \<Rightarrow>
          fdiv (fdiv avg (float64_of_int samplesPerDay)) (float64_of_int samplesPerMonth))"

fun year_months ::
  "LocationTemperatureQueryResult \<Rightarrow> string \<Rightarrow> int \<Rightarrow> (int \<times> DailyTemperatureQuery) list
     \<Rightarrow> error + LocationTemperatureQueryResult" where
  "year_months monthlyAvgTemps c y [] = Inr monthlyAvgTemps"
| "year_months monthlyAvgTemps c y ((m, month) # year) =
     (case InitialiseForDate monthlyAvgTemps c y m 0 of
        Inl e \<Rightarrow> Inl e
      | Inr q1 \<Rightarrow>
          (case Add q1 (month_avg month) c y m 0 of
             Inl e \<Rightarrow> Inl e
           | Inr q2 \<Rightarrow> year_months q2 c y year))"

fun city_years ::
  "LocationTemperatureQueryResult \<Rightarrow> string \<Rightarrow> (int \<times> MonthlyTemperatureQuery) list
     \<Rightarrow> error + LocationTemperatureQueryResult" where
  "city_years monthlyAvgTemps c [] = Inr monthlyAvgTemps"
| "city_years monthlyAvgTemps c ((y, year) # cities) =
     (case year_months monthlyAvgTemps c y (entries year) of
        Inl e \<Rightarrow> Inl e
      | Inr q1 \<Rightarrow> city_years q1 c cities)"

fun all_cities ::
  "LocationTemperatureQueryResult \<Rightarrow> (string \<times> YearlyTemperatureQuery) list
     \<Rightarrow> error + LocationTemperatureQueryResult" where
  "all_cities monthlyAvgTemps [] = Inr monthlyAvgTemps"
| "all_cities monthlyAvgTemps ((c, cities) # rest) =
     (case city_years monthlyAvgTemps c (entries cities) of
        Inl e \<Rightarrow> Inl e
      | Inr q1 \<Rightarrow> all_cities q1 rest)"

definition MonthlyAverageTemperature ::
  "average_row query_result \<Rightarrow> error + LocationTemperatureQueryResult" where
  "MonthlyAverageTemperature store =
     (case store of
        QueryError \<Rightarrow> Inl StorageError
      | Rows rows \<Rightarrow>
          (case MonthlyAverageTemperature_rows (GoMap []) rows of
             Inl e \<Rightarrow> Inl e
           | Inr dailyAvgTemps \<Rightarrow> all_cities (GoMap []) (entries dailyAvgTemps)))"

text \<open>
  The two-stage average in the words of the specification: the mean of the samples of
  each day, then the mean of those daily means over the days present in the month.
\<close>

definition mean :: "float64 list \<Rightarrow> float64" where
  "mean xs = fdiv (foldl fadd (Fin 0) xs) (float64_of_int (length xs))"

definition two_stage_average :: "DailyTemperatureQuery \<Rightarrow> float64" where
  "two_stage_average month = mean (map (\<lambda>(d, day). mean day) (entries month))"

text \<open>
  What the rows say about one bucket path: the scanned rows with a given non-null city
  name and date, and the samples they contribute, in row order.
\<close>

definition temperature_rows_at ::
  "string \<Rightarrow> int \<times> int \<times> int \<Rightarrow> temperature_row scanned list \<Rightarrow> temperature_row list" where
  "temperature_rows_at city date rows =
     [r. Scanned r \<leftarrow> rows, r_cname r = Some city \<and> r_t r = date]"

definition temperature_samples_at ::
  "string \<Rightarrow> int \<times> int \<times> int \<Rightarrow> temperature_row scanned list \<Rightarrow> float64 list" where
  "temperature_samples_at city date rows =
     List.map_filter r_temp (temperature_rows_at city date rows)"

definition average_rows_at ::
  "string \<Rightarrow> int \<times> int \<times> int \<Rightarrow> average_row scanned list \<Rightarrow> average_row list" where
  "average_rows_at city date rows =
     [r. Scanned r \<leftarrow> rows, a_cname r = Some city \<and> a_t r = date]"

definition mid_sample :: "average_row \<Rightarrow> float64 option" where
  "mid_sample r =
     (if a_templo r = None \<or> a_temphi r = None then None
      else Some (fdiv (fadd (the (a_templo r)) (the (a_temphi r))) (Fin 2)))"

definition average_samples_at ::
  "string \<Rightarrow> int \<times> int \<times> int \<Rightarrow> average_row scanned list \<Rightarrow> float64 list" where
  "average_samples_at city date rows =
     List.map_filter mid_sample (average_rows_at city date rows)"

text \<open>The invariant the specification states for the leaves: no leaf that a lookup
  finds is empty.\<close>

definition nonempty_leaves :: "LocationTemperatureQueryResult \<Rightarrow> bool" where
  "nonempty_leaves q \<longleftrightarrow> (\<forall>c y m d ts. leaf q c y m d = Some ts \<longrightarrow> ts \<noteq> [])"

section \<open>The store, the freshness lookup and the write-back\<close>

text \<open>
  The two tables of \<^verbatim>\<open>init.db.sql\<close>. \<^verbatim>\<open>id\<close>, \<^verbatim>\<open>city_name\<close>, \<^verbatim>\<open>location_id\<close> and
  \<^verbatim>\<open>at_time\<close> are \<^verbatim>\<open>not null\<close>; the other columns are nullable (a null \<^verbatim>\<open>labels\<close>
  array scans into a nil slice and is the empty list here). A time is a number of
  nanoseconds since the epoch. \<open>next_id\<close> is the sequence behind the \<^verbatim>\<open>serial\<close> column.
\<close>

type_synonym Time = int

record locations_row =
  loc_id :: int
  loc_city_name :: string
  loc_query_count :: "int option"

record weather_row =
  w_location_id :: int
  w_labels :: "string list"
  w_temp_high :: "float64 option"
  w_temp_low :: "float64 option"
  w_at_time :: Time

record db =
  locations :: "locations_row list"
  weather :: "weather_row list"
  next_id :: int

text \<open>The Go structs the rows are scanned into.\<close>

record LocationRow =
  ID :: "int option"
  QueryCount :: "int option"
  CityName :: "string option"

record WeatherRow =
  LocationRowID :: "int option"
  TempHigh :: "float64 option"
  TempLow :: "float64 option"
  Labels :: "string list"
  AtTime :: Time

definition scan_location :: "locations_row \<Rightarrow> LocationRow" where
  "scan_location l =
     \<lparr>ID = Some (loc_id l), QueryCount = loc_query_count l, CityName = Some (loc_city_name l)\<rparr>"

definition scan_weather :: "weather_row \<Rightarrow> WeatherRow" where
  "scan_weather w =
     \<lparr>LocationRowID = Some (w_location_id w), TempHigh = w_temp_high w, TempLow = w_temp_low w,
      Labels = w_labels w, AtTime = w_at_time w\<rparr>"

text \<open>\<^verbatim>\<open>QueryResult\<close> holds the two rows under the keys "location" and "weather";
  a nil \<^verbatim>\<open>QueryResult\<close> is \<open>None\<close>.\<close>

type_synonym QueryResult = "LocationRow \<times> WeatherRow"

text \<open>
  What is not determined by the request and the store: the clock, the answer of the
  weather provider, and which calls of the database driver fail.
\<close>

record Conditions =
  TempMin :: float64
  TempMax :: float64

record Location =
  Cod :: int
  Message :: "string option"
  Main :: "Conditions option"
  Weather :: "string option list"

record env =
  now_handler :: Time
  now_insert :: Time
  gateway :: "error + Location option"
  fetch_scan_fails :: bool
  incr_prepare_fails :: bool
  incr_exec_fails :: bool
  incr_close_fails :: bool
  begin_fails :: bool
  prepare_upsert_fails :: bool
  scan_upsert_fails :: bool
  prepare_insert_fails :: bool
  scan_insert_fails :: bool
  commit_fails :: bool

subsection \<open>FetchLocationWeather\<close>

text \<open>
  The query: \<^verbatim>\<open>from locations, weather where city_name = $1 and at_time = (select
  max(at_time) from weather)\<close>. The two tables are joined without a condition between
  \<^verbatim>\<open>locations.id\<close> and \<^verbatim>\<open>weather.location_id\<close>, and the maximum ranges over the whole
  \<^verbatim>\<open>weather\<close> table (it is null, and equal to nothing, when the table is empty).
\<close>

fun max_at_time :: "weather_row list \<Rightarrow> Time option" where
  "max_at_time [] = None"
| "max_at_time (w # ws) = Some (fold max (map w_at_time ws) (w_at_time w))"

definition FetchLocationWeather_query ::
  "db \<Rightarrow> string \<Rightarrow> (locations_row \<times> weather_row) list" where
  "FetchLocationWeather_query d cityName =
     [(l, w). l \<leftarrow> locations d, w \<leftarrow> weather d,
        loc_city_name l = cityName \<and> Some (w_at_time w) = max_at_time (weather d)]"

text \<open>\<^verbatim>\<open>row.Scan\<close> on the first row of the query: the error (nil is \<open>None\<close>) and the values
  of \<^verbatim>\<open>lr\<close> and \<^verbatim>\<open>wr\<close>, which stay zero when nothing is scanned.\<close>

definition zero_LocationRow :: LocationRow where
  "zero_LocationRow = \<lparr>ID = None, QueryCount = None, CityName = None\<rparr>"

definition zero_WeatherRow :: WeatherRow where
  "zero_WeatherRow =
     \<lparr>LocationRowID = None, TempHigh = None, TempLow = None, Labels = [], AtTime = 0\<rparr>"

definition FetchLocationWeather_scan ::
  "env \<Rightarrow> db \<Rightarrow> string \<Rightarrow> error option \<times> LocationRow \<times> WeatherRow" where
  "FetchLocationWeather_scan e d cityName =
     (if fetch_scan_fails e then (Some StorageError, zero_LocationRow, zero_WeatherRow)
      else (case FetchLocationWeather_query d cityName of
              [] \<Rightarrow> (Some ErrNoRows, zero_LocationRow, zero_WeatherRow)
            | (l, w) # _ \<Rightarrow> (None, scan_location l, scan_weather w)))"

text \<open>
  \<^verbatim>\<open>FetchLocationWeather\<close> returns the pair (\<^verbatim>\<open>QueryResult\<close>, \<^verbatim>\<open>error\<close>). Its switch has the
  scan error as its tag and the cases \<^verbatim>\<open>case sql.ErrNoRows\<close>, \<^verbatim>\<open>case err\<close>, \<^verbatim>\<open>default\<close>, tried
  in this order; a case is taken when its expression equals the tag.
\<close>

definition FetchLocationWeather ::
  "env \<Rightarrow> db \<Rightarrow> string \<Rightarrow> QueryResult option \<times> error option" where
  "FetchLocationWeather e d cityName =
     (case FetchLocationWeather_scan e d cityName of
        (err, lr, wr) \<Rightarrow>
          if err = Some ErrNoRows then (None, None)
          else if err = err then (None, err)
          else (Some (lr, wr), None))"

text \<open>
  The reading the specification calls the current reading of a location: among the
  readings whose \<^verbatim>\<open>location_id\<close> is the location's \<^verbatim>\<open>id\<close>, one with the greatest
  \<^verbatim>\<open>at_time\<close>.
\<close>

definition readings_of :: "db \<Rightarrow> string \<Rightarrow> weather_row list" where
  "readings_of d cityName =
     [w. l \<leftarrow> locations d, loc_city_name l = cityName,
         w \<leftarrow> weather d, w_location_id w = loc_id l]"

definition current_reading :: "db \<Rightarrow> string \<Rightarrow> weather_row option" where
  "current_reading d cityName =
     (case [w. w \<leftarrow> readings_of d cityName,
               Some (w_at_time w) = max_at_time (readings_of d cityName)] of
        [] \<Rightarrow> None
      | w # _ \<Rightarrow> Some w)"

subsection \<open>IncrQueryCount\<close>

text \<open>
  The counter of the struct is incremented first, then written with \<^verbatim>\<open>update locations
  set query_count = $2 where city_name = $1\<close>. The results are the store, the struct and
  the returned error. (An invalid \<^verbatim>\<open>NullInt64\<close> stays invalid and is written as null.)
\<close>

definition IncrQueryCount :: "env \<Rightarrow> db \<Rightarrow> LocationRow \<Rightarrow> db \<times> LocationRow \<times> error option" where
  "IncrQueryCount e d lr =
     (let lr' = lr\<lparr>QueryCount := map_option (\<lambda>n. n + 1) (QueryCount lr)\<rparr> in
      if incr_prepare_fails e then (d, lr', Some StorageError)
      else if incr_exec_fails e then (d, lr', Some StorageError)
      else
        (d\<lparr>locations :=
             map (\<lambda>l. if Some (loc_city_name l) = CityName lr'
                       then l\<lparr>loc_query_count := QueryCount lr'\<rparr> else l)
                 (locations d)\<rparr>,
         lr',
         if incr_close_fails e then Some StorageError else None))"

subsection \<open>UpdateCachedLocationWeather\<close>

text \<open>
  The statements of the transaction, on the transaction's view of the store. The upsert
  inserts the city with counter 1 and the next id, or on a conflict on \<^verbatim>\<open>city_name\<close> adds 1
  to the counter of the existing row; it returns the row.
\<close>

definition upsert_location :: "db \<Rightarrow> string \<Rightarrow> db \<times> locations_row" where
  "upsert_location d cityName =
     (case find (\<lambda>l. loc_city_name l = cityName) (locations d) of
        Some l \<Rightarrow>
          (let l' = l\<lparr>loc_query_count := map_option (\<lambda>n. n + 1) (loc_query_count l)\<rparr> in
           (d\<lparr>locations :=
                map (\<lambda>x. if loc_city_name x = cityName then l' else x) (locations d)\<rparr>, l'))
      | None \<Rightarrow>
          (let l = \<lparr>loc_id = next_id d, loc_city_name = cityName, loc_query_count = Some 1\<rparr> in
           (d\<lparr>locations := locations d @ [l], next_id := next_id d + 1\<rparr>, l)))"

definition insert_weather :: "db \<Rightarrow> weather_row \<Rightarrow> db" where
  "insert_weather d w = d\<lparr>weather := weather d @ [w]\<rparr>"

text \<open>
  The deferred closure, run when the function returns: it reads the function's variable
  \<^verbatim>\<open>err\<close>, rolls back when that is not nil and commits otherwise. \<open>base\<close> is the store
  as committed before the transaction, \<open>work\<close> the transaction's view. A fault at a
  statement leaves the view as it was before the statement, and a commit publishes the
  view as it is. (A server that has itself aborted the transaction at a failed statement
  answers a commit with a rollback; such a server is not modelled: the model follows
  what the function asks the transaction to do.)
\<close>

datatype txn_end = NoTransaction | Committed | RolledBack | CommitFailed

definition deferred :: "env \<Rightarrow> error option \<Rightarrow> db \<Rightarrow> db \<Rightarrow> db \<times> txn_end" where
  "deferred e err base work =
     (if err \<noteq> None then (base, RolledBack)
      else if commit_fails e then (base, CommitFailed)
      else (work, Committed))"

text \<open>
  \<^verbatim>\<open>UpdateCachedLocationWeather\<close>: the returned pair, and the store and the way the
  transaction ended. The second argument of \<open>deferred\<close> is the value of the variable
  \<^verbatim>\<open>err\<close> of the function at the return: \<^verbatim>\<open>stmt, err = txn.Prepare(query)\<close> and
  \<^verbatim>\<open>err = row.Scan(...)\<close> of the upsert assign it; the Scan of the insert is
  \<^verbatim>\<open>if err := row.Scan(...); err != nil\<close>, which declares a new variable for the
  statement, so the function's \<^verbatim>\<open>err\<close> keeps the nil of the Prepare before it. When
  \<^verbatim>\<open>Begin\<close> fails the function returns \<^verbatim>\<open>nil, err\<close> with \<^verbatim>\<open>err\<close> not yet assigned.
\<close>

definition UpdateCachedLocationWeather ::
  "env \<Rightarrow> db \<Rightarrow> string \<Rightarrow> float64 \<Rightarrow> float64 \<Rightarrow> string list
     \<Rightarrow> (QueryResult option \<times> error option) \<times> db \<times> txn_end" where
  "UpdateCachedLocationWeather e d cityName tempMin tempMax labels =
     (if begin_fails e then ((None, None), d, NoTransaction)
      else if prepare_upsert_fails e
        then ((None, Some StorageError), deferred e (Some StorageError) d d)
      else if scan_upsert_fails e
        then ((None, Some StorageError), deferred e (Some StorageError) d d)
      else
        (case upsert_location d cityName of
           (work1, l) \<Rightarrow>
             if prepare_insert_fails e
               then ((None, Some StorageError), deferred e (Some StorageError) d work1)
             else if scan_insert_fails e
               then ((None, Some StorageError), deferred e None d work1)
             else
               (let w = \<lparr>w_location_id = loc_id l, w_labels = labels,
                         w_temp_high = Some tempMax, w_temp_low = Some tempMin,
                         w_at_time = now_insert e\<rparr>
                in ((Some (scan_location l, scan_weather w), None),
                    deferred e None d (insert_weather work1 w)))))"

subsection \<open>ReportLocationWeather\<close>

text \<open>
  \<^verbatim>\<open>time.Time.Sub\<close> saturates at the ends of the \<^verbatim>\<open>int64\<close> range of a \<^verbatim>\<open>Duration\<close>;
  \<^verbatim>\<open>Duration.Minutes\<close> is the whole minutes plus the remaining nanoseconds over
  \<^verbatim>\<open>60 * 1e9\<close> (Go's integer division and remainder truncate towards zero).
\<close>

definition Sub :: "Time \<Rightarrow> Time \<Rightarrow> int" where
  "Sub t u = max (- (2 ^ 63)) (min (2 ^ 63 - 1) (t - u))"

definition Minute :: int where
  "Minute = 60 * 1000000000"

definition quo :: "int \<Rightarrow> int \<Rightarrow> int" where
  "quo a b = sgn a * sgn b * (\<bar>a\<bar> div \<bar>b\<bar>)"

definition rem :: "int \<Rightarrow> int \<Rightarrow> int" where
  "rem a b = a - quo a b * b"

definition Minutes :: "int \<Rightarrow> real" where
  "Minutes d = real_of_int (quo d Minute) + real_of_int (rem d Minute) / (60 * 1000000000)"

definition cacheTTLMinutes :: real where
  "cacheTTLMinutes = 1"

text \<open>The handler's \<^verbatim>\<open>parseRows\<close>: both pointers are nil for a nil \<^verbatim>\<open>QueryResult\<close>.\<close>

definition parseRows :: "QueryResult option \<Rightarrow> LocationRow option \<times> WeatherRow option" where
  "parseRows q = (case q of None \<Rightarrow> (None, None) | Some (lr, wr) \<Rightarrow> (Some lr, Some wr))"

text \<open>\<^verbatim>\<open>WeatherLabels\<close>: the labels of the conditions; an element of \<^verbatim>\<open>l.Weather\<close> is a
  pointer, and a nil one cannot be read.\<close>

fun WeatherLabels :: "string option list \<Rightarrow> error + string list" where
  "WeatherLabels [] = Inr []"
| "WeatherLabels (None # ws) = Inl NilPointerDereference"
| "WeatherLabels (Some l # ws) =
     (case WeatherLabels ws of Inl e \<Rightarrow> Inl e | Inr ls \<Rightarrow> Inr (l # ls))"

text \<open>The \<^verbatim>\<open>Float64\<close> field of a \<^verbatim>\<open>NullFloat64\<close>: 0 when the value is null.\<close>

definition Float64 :: "float64 option \<Rightarrow> float64" where
  "Float64 v = (case v of None \<Rightarrow> Fin 0 | Some x \<Rightarrow> x)"

record request =
  req_method :: string
  req_city :: "string option"

datatype response =
    MethodNotAllowed
  | InternalServerError error
  | SendMessage string
  | SendWeather string "string list" float64 float64 float64 Time
  | Panic error

record outcome =
  out_db :: db
  out_response :: response
  out_gateway_called :: bool

text \<open>The final \<^verbatim>\<open>sendJSON\<close> of the handler; it reads through \<^verbatim>\<open>wr\<close>.\<close>

definition send_weather :: "string \<Rightarrow> WeatherRow option \<Rightarrow> response" where
  "send_weather cityName wr =
     (case wr of
        None \<Rightarrow> Panic NilPointerDereference
      | Some w \<Rightarrow>
          SendWeather cityName (Labels w) (Float64 (TempLow w)) (Float64 (TempHigh w))
            (fdiv (fadd (Float64 (TempLow w)) (Float64 (TempHigh w))) (Fin 2)) (AtTime w))"

text \<open>The block \<^verbatim>\<open>if refresh { ... }\<close> and the response after it.\<close>

definition refresh_weather :: "env \<Rightarrow> db \<Rightarrow> string \<Rightarrow> outcome" where
  "refresh_weather e d cityName =
     (case gateway e of
        Inl err \<Rightarrow> \<lparr>out_db = d, out_response = InternalServerError err, out_gateway_called = True\<rparr>
      | Inr None \<Rightarrow>
          \<lparr>out_db = d, out_response = Panic NilPointerDereference, out_gateway_called = True\<rparr>
      | Inr (Some location) \<Rightarrow>
          if Cod location \<noteq> 200 then
            \<lparr>out_db = d,
             out_response =
               (case Message location of
                  Some m \<Rightarrow> SendMessage m
                | None \<Rightarrow>
                    SendMessage ''failed to communicate with the openweather api: unknown reason''),
             out_gateway_called = True\<rparr>
          else
            (case Main location of
               None \<Rightarrow>
                 \<lparr>out_db = d, out_response = Panic NilPointerDereference,
                  out_gateway_called = True\<rparr>
             | Some main \<Rightarrow>
                 (case WeatherLabels (Weather location) of
                    Inl p \<Rightarrow> \<lparr>out_db = d, out_response = Panic p, out_gateway_called = True\<rparr>
                  | Inr labels \<Rightarrow>
                      (case UpdateCachedLocationWeather e d cityName
                              (TempMin main) (TempMax main) labels of
                         ((query, Some err), d', t) \<Rightarrow>
                           \<lparr>out_db = d', out_response = InternalServerError err,
                            out_gateway_called = True\<rparr>
                       | ((query, None), d', t) \<Rightarrow>
                           \<lparr>out_db = d',
                            out_response = send_weather cityName (snd (parseRows query)),
                            out_gateway_called = True\<rparr>))))"

text \<open>
  \<^verbatim>\<open>ReportLocationWeather\<close>. \<open>req_city\<close> is the title-cased value of the parameter
  \<^verbatim>\<open>city\<close>, or \<open>None\<close> when \<^verbatim>\<open>url.ParseQuery\<close> fails.
\<close>

definition ReportLocationWeather :: "env \<Rightarrow> db \<Rightarrow> request \<Rightarrow> outcome" where
  "ReportLocationWeather e d r =
     (if req_method r \<noteq> ''GET'' then
        \<lparr>out_db = d, out_response = MethodNotAllowed, out_gateway_called = False\<rparr>
      else
        (case req_city r of
           None \<Rightarrow>
             \<lparr>out_db = d, out_response = InternalServerError ParseQueryError,
              out_gateway_called = False\<rparr>
         | Some cityName \<Rightarrow>
             (case FetchLocationWeather e d cityName of
                (query, Some err) \<Rightarrow>
                  \<lparr>out_db = d, out_response = InternalServerError err,
                   out_gateway_called = False\<rparr>
              | (query, None) \<Rightarrow>
                  (case parseRows query of
                     (Some lr, Some wr) \<Rightarrow>
                       if Minutes (Sub (now_handler e) (AtTime wr)) < cacheTTLMinutes then
                         (case IncrQueryCount e d lr of
                            (d', lr', Some err) \<Rightarrow>
                              \<lparr>out_db = d', out_response = InternalServerError err,
                               out_gateway_called = False\<rparr>
                          | (d', lr', None) \<Rightarrow>
                              \<lparr>out_db = d', out_response = send_weather cityName (Some wr),
                               out_gateway_called = False\<rparr>)
                       else refresh_weather e d cityName
                   | _ \<Rightarrow> refresh_weather e d cityName))))"

subsection \<open>Example inputs\<close>

text \<open>An environment without faults, a store with two cities and a reading each, and a
  store with one city and one reading.\<close>

definition quiet_env :: "Time \<Rightarrow> Time \<Rightarrow> error + Location option \<Rightarrow> env" where
  "quiet_env t1 t2 g =
     \<lparr>now_handler = t1, now_insert = t2, gateway = g,
      fetch_scan_fails = False, incr_prepare_fails = False, incr_exec_fails = False,
      incr_close_fails = False, begin_fails = False, prepare_upsert_fails = False,
      scan_upsert_fails = False, prepare_insert_fails = False, scan_insert_fails = False,
      commit_fails = False\<rparr>"

definition reno_lima :: db where
  "reno_lima =
     \<lparr>locations =
        [\<lparr>loc_id = 1, loc_city_name = ''Reno'', loc_query_count = Some 1\<rparr>,
         \<lparr>loc_id = 2, loc_city_name = ''Lima'', loc_query_count = Some 1\<rparr>],
      weather =
        [\<lparr>w_location_id = 1, w_labels = [''Clear''], w_temp_high = Some (Fin 278),
          w_temp_low = Some (Fin 274), w_at_time = 0\<rparr>,
         \<lparr>w_location_id = 2, w_labels = [''Rain''], w_temp_high = Some (Fin 290),
          w_temp_low = Some (Fin 288), w_at_time = 120000000000\<rparr>],
      next_id = 3\<rparr>"

definition reno_only :: db where
  "reno_only =
     \<lparr>locations = [\<lparr>loc_id = 1, loc_city_name = ''Reno'', loc_query_count = Some 1\<rparr>],
      weather =
        [\<lparr>w_location_id = 1, w_labels = [''Clear''], w_temp_high = Some (Fin 278),
          w_temp_low = Some (Fin 274), w_at_time = 0\<rparr>],
      next_id = 2\<rparr>"

definition snow :: Location where
  "snow = \<lparr>Cod = 200, Message = None,
            Main = Some \<lparr>TempMin = Fin 270, TempMax = Fin 280\<rparr>, Weather = [Some ''Snow'']\<rparr>"

section \<open>Facts about the nested maps\<close>

lemma lookup_assign: "assign q k v = Inr q' \<Longrightarrow> lookup q' k' = (if k' = k then Some v else lookup q k')"
  by (cases q) (auto simp: update_conv')

lemma index_assign: "assign q k v = Inr q' \<Longrightarrow> index q' k' = (if k' = k then v else index q k')"
  by (simp add: index_def lookup_assign)

lemma index_slice_assign: "assign q k v = Inr q' \<Longrightarrow> index_slice q' k' = (if k' = k then v else index_slice q k')"
  by (simp add: index_slice_def lookup_assign)

lemma assign_Inl_iff: "(assign q k v = Inl e) \<longleftrightarrow> (q = NilMap \<and> e = AssignToEntryInNilMap)"
  by (cases q) auto

lemma assign_Inr_not_nil: "assign q k v = Inr q' \<Longrightarrow> q \<noteq> NilMap \<and> q' \<noteq> NilMap"
  by (cases q) auto

lemma assign_ok: "q \<noteq> NilMap \<Longrightarrow> \<exists>q'. assign q k v = Inr q'"
  by (cases q) auto

lemma assign2_Inr: "assign2 q a b v = Inr q' \<Longrightarrow>
   \<exists>i. assign (index q a) b v = Inr i \<and> assign q a i = Inr q'"
  by (auto simp: assign2_def split: sum.splits)

lemma assign3_Inr: "assign3 q a b c v = Inr q' \<Longrightarrow>
   \<exists>i. assign2 (index q a) b c v = Inr i \<and> assign q a i = Inr q'"
  by (auto simp: assign3_def split: sum.splits)

lemma assign4_Inr: "assign4 q a b c d v = Inr q' \<Longrightarrow>
   \<exists>i. assign3 (index q a) b c d v = Inr i \<and> assign q a i = Inr q'"
  by (auto simp: assign4_def split: sum.splits)

lemma index2_assign2: "assign2 q a b v = Inr q' \<Longrightarrow>
   index (index q' a') b' = (if a' = a \<and> b' = b then v else index (index q a') b')"
  by (auto dest!: assign2_Inr simp: index_assign)

lemma index1_assign2: "assign2 q a b v = Inr q' \<Longrightarrow> lookup q a' \<noteq> None \<Longrightarrow> lookup q' a' \<noteq> None"
  by (auto dest!: assign2_Inr simp: lookup_assign)

lemma lookup2_assign2: "assign2 q a b v = Inr q' \<Longrightarrow>
   lookup (index q' a') b' = (if a' = a \<and> b' = b then Some v else lookup (index q a') b')"
  by (auto dest!: assign2_Inr simp: index_assign lookup_assign)

lemma index3_assign3: "assign3 q a b c v = Inr q' \<Longrightarrow>
   index (index (index q' a') b') c' = (if a' = a \<and> b' = b \<and> c' = c then v else index (index (index q a') b') c')"
  by (auto dest!: assign3_Inr simp: index_assign index2_assign2)

lemma lookup3_assign3: "assign3 q a b c v = Inr q' \<Longrightarrow>
   lookup (index (index q' a') b') c' = (if a' = a \<and> b' = b \<and> c' = c then Some v else lookup (index (index q a') b') c')"
  by (auto dest!: assign3_Inr simp: index_assign lookup2_assign2)

lemma lookup4_assign4: "assign4 q a b c d v = Inr q' \<Longrightarrow>
   lookup (index (index (index q' a') b') c') d' = (if a' = a \<and> b' = b \<and> c' = c \<and> d' = d then Some v else lookup (index (index (index q a') b') c') d')"
  by (auto dest!: assign4_Inr simp: index_assign lookup3_assign3)

lemma leaf_assign4: "assign4 q a b c d v = Inr q' \<Longrightarrow>
   leaf q' a' b' c' d' = (if a' = a \<and> b' = b \<and> c' = c \<and> d' = d then Some v else leaf q a' b' c' d')"
  by (simp add: leaf_def month_bucket_def lookup4_assign4)

lemma leaf_Add: "Add q t c y m d = Inr q' \<Longrightarrow>
   leaf q' c' y' m' d' = (if c' = c \<and> y' = y \<and> m' = m \<and> d' = d then Some (index_slice (month_bucket q c y m) d @ [t]) else leaf q c' y' m' d')"
  by (simp add: Add_def leaf_assign4 month_bucket_def)


lemma index_NilMap [simp]: "index NilMap k = NilMap"
  by (simp add: index_def)

lemma index_empty [simp]: "index (GoMap []) k = NilMap"
  by (simp add: index_def)

lemma index_missing: "lookup q k = None \<Longrightarrow> index q k = NilMap"
  by (simp add: index_def)

lemma ensure1_leaf:
  "lookup q c = None \<Longrightarrow> assign q c (GoMap []) = Inr q1 \<Longrightarrow> leaf q1 c' y' m' d' = leaf q c' y' m' d'"
  by (simp add: leaf_def month_bucket_def index_assign index_missing)

lemma ensure2_leaf:
  "lookup (index q c) y = None \<Longrightarrow> assign2 q c y (GoMap []) = Inr q1 \<Longrightarrow> leaf q1 c' y' m' d' = leaf q c' y' m' d'"
  by (simp add: leaf_def month_bucket_def index2_assign2 index_missing)

lemma ensure3_leaf:
  "lookup (index (index q c) y) m = None \<Longrightarrow> assign3 q c y m (GoMap []) = Inr q1 \<Longrightarrow> leaf q1 c' y' m' d' = leaf q c' y' m' d'"
  by (simp add: leaf_def month_bucket_def index3_assign3 index_missing)

lemma leaf_InitialiseForDate:
  assumes "InitialiseForDate q c y m d = Inr q'"
  shows "leaf q' c' y' m' d' =
     (if c' = c \<and> y' = y \<and> m' = m \<and> d' = d \<and> leaf q c y m d = None then Some []
      else leaf q c' y' m' d')"
proof -
  from assms obtain q1 q2 q3 where
    s1: "(if lookup q c = None then assign q c (GoMap []) else Inr q) = Inr q1" and
    s2: "(if lookup (index q1 c) y = None then assign2 q1 c y (GoMap []) else Inr q1) = Inr q2" and
    s3: "(if lookup (index (index q2 c) y) m = None then assign3 q2 c y m (GoMap []) else Inr q2) = Inr q3" and
    s4: "(if lookup (index (index (index q3 c) y) m) d = None then assign4 q3 c y m d [] else Inr q3) = Inr q'"
    unfolding InitialiseForDate_def by (auto split: sum.splits)
  have l1: "leaf q1 a b e f = leaf q a b e f" for a b e f
    using s1 by (auto split: if_splits simp: ensure1_leaf)
  have l2: "leaf q2 a b e f = leaf q1 a b e f" for a b e f
    using s2 by (auto split: if_splits simp: ensure2_leaf)
  have l3: "leaf q3 a b e f = leaf q2 a b e f" for a b e f
    using s3 by (auto split: if_splits simp: ensure3_leaf)
  have l4: "leaf q' c' y' m' d' =
     (if c' = c \<and> y' = y \<and> m' = m \<and> d' = d \<and> leaf q3 c y m d = None then Some []
      else leaf q3 c' y' m' d')"
    using s4 by (auto split: if_splits simp: leaf_assign4) (simp_all add: leaf_def month_bucket_def)
  show ?thesis by (simp add: l4 l3 l2 l1)
qed

lemma leaf_path:
  assumes "leaf q c y m d \<noteq> None"
  shows "lookup q c \<noteq> None \<and> lookup (index q c) y \<noteq> None \<and> lookup (index (index q c) y) m \<noteq> None"
proof -
  have a: "lookup (index (index q c) y) m \<noteq> None"
    using assms by (cases "lookup (index (index q c) y) m") (simp_all add: leaf_def month_bucket_def index_missing)
  have b: "lookup (index q c) y \<noteq> None"
    using a by (cases "lookup (index q c) y") (simp_all add: index_missing)
  have c: "lookup q c \<noteq> None"
    using b by (cases "lookup q c") (simp_all add: index_missing)
  from a b c show ?thesis by simp
qed

lemma InitialiseForDate_present:
  assumes "leaf q c y m d \<noteq> None"
  shows "InitialiseForDate q c y m d = Inr q"
  using leaf_path[OF assms] assms by (auto simp: InitialiseForDate_def leaf_def month_bucket_def)

lemma InitialiseForDate_twice:
  assumes "InitialiseForDate q c y m d = Inr q'"
  shows "InitialiseForDate q' c y m d = Inr q'"
  by (rule InitialiseForDate_present) (simp add: leaf_InitialiseForDate[OF assms])

lemma set_update_subset: "set (AList.update k v al) \<subseteq> insert (k, v) (set al)"
  by (induction al) auto

lemma entries_assign: "assign q k v = Inr q' \<Longrightarrow> set (entries q') \<subseteq> insert (k, v) (set (entries q))"
  by (cases q) (auto dest: set_mp[OF set_update_subset])

lemma lookup_entries: "lookup q k = Some v \<Longrightarrow> (k, v) \<in> set (entries q)"
  by (cases q) (auto dest: map_of_SomeD)

lemma good_assign: "assign q k v = Inr q' \<Longrightarrow> good q \<Longrightarrow> good q'"
  by (cases q) (auto simp: good_def distinct_update)

lemma good_empty [simp]: "good (GoMap [])"
  by (simp add: good_def)

lemma wf_months_empty [simp]: "wf_months (GoMap [])"
  by (simp add: wf_months_def)

lemma wf_years_empty [simp]: "wf_years (GoMap [])"
  by (simp add: wf_years_def)

lemma wellformed_empty [simp]: "wellformed (GoMap [])"
  by (simp add: wellformed_def)

lemma good_assign_ok: "good q \<Longrightarrow> \<exists>q'. assign q k v = Inr q'"
  by (cases q) (auto simp: good_def)

lemma wf_months_good: "wf_months mq \<Longrightarrow> good mq"
  by (simp add: wf_months_def)

lemma wf_years_good: "wf_years yq \<Longrightarrow> good yq"
  by (simp add: wf_years_def)

lemma wellformed_good: "wellformed q \<Longrightarrow> good q"
  by (simp add: wellformed_def)

lemma wf_months_assign:
  "assign mq mo dq = Inr mq' \<Longrightarrow> wf_months mq \<Longrightarrow> good dq \<Longrightarrow> wf_months mq'"
  unfolding wf_months_def using entries_assign good_assign by fastforce

lemma wf_years_assign:
  "assign yq y mq = Inr yq' \<Longrightarrow> wf_years yq \<Longrightarrow> wf_months mq \<Longrightarrow> wf_years yq'"
  unfolding wf_years_def using entries_assign good_assign by fastforce

lemma wellformed_assign:
  "assign q c yq = Inr q' \<Longrightarrow> wellformed q \<Longrightarrow> wf_years yq \<Longrightarrow> wellformed q'"
  unfolding wellformed_def using entries_assign good_assign by fastforce

lemma wf_months_index: "wf_months mq \<Longrightarrow> lookup mq mo \<noteq> None \<Longrightarrow> good (index mq mo)"
  by (cases "lookup mq mo") (auto simp: wf_months_def index_def dest: lookup_entries)

lemma wf_years_index: "wf_years yq \<Longrightarrow> lookup yq y \<noteq> None \<Longrightarrow> wf_months (index yq y)"
  by (cases "lookup yq y") (auto simp: wf_years_def index_def dest: lookup_entries)

lemma wellformed_index: "wellformed q \<Longrightarrow> lookup q c \<noteq> None \<Longrightarrow> wf_years (index q c)"
  by (cases "lookup q c") (auto simp: wellformed_def index_def dest: lookup_entries)

lemma assign2_wf_years:
  assumes "wf_years yq" "lookup yq y \<noteq> None" "good dq"
  shows "\<exists>yq'. assign2 yq y mo dq = Inr yq' \<and> wf_years yq'"
proof -
  have w: "wf_months (index yq y)" using assms by (simp add: wf_years_index)
  obtain i where i: "assign (index yq y) mo dq = Inr i"
    using good_assign_ok[OF wf_months_good[OF w]] by blast
  have wi: "wf_months i" using wf_months_assign[OF i w assms(3)] .
  obtain yq' where q': "assign yq y i = Inr yq'"
    using good_assign_ok[OF wf_years_good[OF assms(1)]] by blast
  have "wf_years yq'" using wf_years_assign[OF q' assms(1) wi] .
  with i q' show ?thesis by (simp add: assign2_def)
qed

lemma assign2_wellformed:
  assumes "wellformed q" "lookup q c \<noteq> None" "wf_months mq"
  shows "\<exists>q'. assign2 q c y mq = Inr q' \<and> wellformed q'"
proof -
  have w: "wf_years (index q c)" using assms by (simp add: wellformed_index)
  obtain i where i: "assign (index q c) y mq = Inr i"
    using good_assign_ok[OF wf_years_good[OF w]] by blast
  have wi: "wf_years i" using wf_years_assign[OF i w assms(3)] .
  obtain q' where q': "assign q c i = Inr q'"
    using good_assign_ok[OF wellformed_good[OF assms(1)]] by blast
  have "wellformed q'" using wellformed_assign[OF q' assms(1) wi] .
  with i q' show ?thesis by (simp add: assign2_def)
qed

lemma assign3_wellformed:
  assumes "wellformed q" "lookup q c \<noteq> None" "lookup (index q c) y \<noteq> None" "good dq"
  shows "\<exists>q'. assign3 q c y mo dq = Inr q' \<and> wellformed q'"
proof -
  have w: "wf_years (index q c)" using assms by (simp add: wellformed_index)
  obtain i where i: "assign2 (index q c) y mo dq = Inr i" and wi: "wf_years i"
    using assign2_wf_years[OF w assms(3) assms(4)] by blast
  obtain q' where q': "assign q c i = Inr q'"
    using good_assign_ok[OF wellformed_good[OF assms(1)]] by blast
  have "wellformed q'" using wellformed_assign[OF q' assms(1) wi] .
  with i q' show ?thesis by (simp add: assign3_def)
qed

lemma assign3_wf_years:
  assumes "wf_years yq" "lookup yq y \<noteq> None" "lookup (index yq y) mo \<noteq> None"
  shows "\<exists>yq'. assign3 yq y mo d ts = Inr yq' \<and> wf_years yq'"
proof -
  have w: "wf_months (index yq y)" using assms by (simp add: wf_years_index)
  have g: "good (index (index yq y) mo)" using w assms(3) by (rule wf_months_index)
  obtain j where j: "assign (index (index yq y) mo) d ts = Inr j"
    using good_assign_ok[OF g] by blast
  have gj: "good j" using good_assign[OF j g] .
  obtain i where i: "assign (index yq y) mo j = Inr i"
    using good_assign_ok[OF wf_months_good[OF w]] by blast
  have wi: "wf_months i" using wf_months_assign[OF i w gj] .
  obtain yq' where q': "assign yq y i = Inr yq'"
    using good_assign_ok[OF wf_years_good[OF assms(1)]] by blast
  have "wf_years yq'" using wf_years_assign[OF q' assms(1) wi] .
  with j i q' show ?thesis by (simp add: assign3_def assign2_def)
qed

lemma assign4_wellformed:
  assumes "wellformed q" "lookup q c \<noteq> None" "lookup (index q c) y \<noteq> None"
    "lookup (index (index q c) y) mo \<noteq> None"
  shows "\<exists>q'. assign4 q c y mo d ts = Inr q' \<and> wellformed q'"
proof -
  have w: "wf_years (index q c)" using assms by (simp add: wellformed_index)
  obtain i where i: "assign3 (index q c) y mo d ts = Inr i" and wi: "wf_years i"
    using assign3_wf_years[OF w assms(3) assms(4)] by blast
  obtain q' where q': "assign q c i = Inr q'"
    using good_assign_ok[OF wellformed_good[OF assms(1)]] by blast
  have "wellformed q'" using wellformed_assign[OF q' assms(1) wi] .
  with i q' show ?thesis by (simp add: assign4_def)
qed

lemma InitialiseForDate_wellformed:
  assumes "wellformed q"
  shows "\<exists>q'. InitialiseForDate q c y m d = Inr q' \<and> wellformed q'"
proof -
  obtain q1 where s1: "(if lookup q c = None then assign q c (GoMap []) else Inr q) = Inr q1"
    and w1: "wellformed q1" and p1: "lookup q1 c \<noteq> None"
  proof (cases "lookup q c = None")
    case True
    obtain q1 where a: "assign q c (GoMap []) = Inr q1"
      using good_assign_ok[OF wellformed_good[OF assms]] by blast
    show ?thesis
      using that[of q1] True a wellformed_assign[OF a assms] lookup_assign[OF a, of c] by simp
  next
    case False
    then show ?thesis using that[of q] assms by simp
  qed
  obtain q2 where s2: "(if lookup (index q1 c) y = None then assign2 q1 c y (GoMap []) else Inr q1) = Inr q2"
    and w2: "wellformed q2" and p2: "lookup q2 c \<noteq> None" "lookup (index q2 c) y \<noteq> None"
  proof (cases "lookup (index q1 c) y = None")
    case True
    obtain q2 where a: "assign2 q1 c y (GoMap []) = Inr q2" and w: "wellformed q2"
      using assign2_wellformed[OF w1 p1 wf_months_empty] by blast
    show ?thesis
      using that[of q2] True a w index1_assign2[OF a p1] lookup2_assign2[OF a, of c y] by simp
  next
    case False
    then show ?thesis using that[of q1] w1 p1 by simp
  qed
  obtain q3 where s3: "(if lookup (index (index q2 c) y) m = None then assign3 q2 c y m (GoMap []) else Inr q2) = Inr q3"
    and w3: "wellformed q3" and p3: "lookup q3 c \<noteq> None" "lookup (index q3 c) y \<noteq> None"
      "lookup (index (index q3 c) y) m \<noteq> None"
  proof (cases "lookup (index (index q2 c) y) m = None")
    case True
    obtain q3 where a: "assign3 q2 c y m (GoMap []) = Inr q3" and w: "wellformed q3"
      using assign3_wellformed[OF w2 p2 good_empty] by blast
    have l3: "lookup (index (index q3 c) y) m \<noteq> None"
      using lookup3_assign3[OF a, of c y m] by simp
    have l2: "lookup (index q3 c) y \<noteq> None"
      using l3 by (cases "lookup (index q3 c) y") (simp_all add: index_missing)
    have l1: "lookup q3 c \<noteq> None"
      using l2 by (cases "lookup q3 c") (simp_all add: index_missing)
    show ?thesis
      using that[of q3] True a w l1 l2 l3 by simp
  next
    case False
    then show ?thesis using that[of q2] w2 p2 by simp
  qed
  obtain q' where s4: "(if lookup (index (index (index q3 c) y) m) d = None then assign4 q3 c y m d [] else Inr q3) = Inr q'"
    and w4: "wellformed q'"
  proof (cases "lookup (index (index (index q3 c) y) m) d = None")
    case True
    obtain q4 where a: "assign4 q3 c y m d [] = Inr q4" and w: "wellformed q4"
      using assign4_wellformed[OF w3 p3] by blast
    show ?thesis using that[of q4] True a w by simp
  next
    case False
    then show ?thesis using that[of q3] w3 by auto
  qed
  show ?thesis
    using s1 s2 s3 s4 w4 by (simp add: InitialiseForDate_def)
qed

lemma Add_wellformed:
  assumes "wellformed q" "leaf q c y m d \<noteq> None"
  shows "\<exists>q'. Add q t c y m d = Inr q' \<and> wellformed q'"
  using assign4_wellformed[OF assms(1), of c y m d] leaf_path[OF assms(2)]
  by (simp add: Add_def)

lemma index_not_nil: "index q k \<noteq> NilMap \<Longrightarrow> q \<noteq> NilMap"
  by (cases q) (auto simp: index_def)

lemma assign4_ok:
  assumes "index (index (index q c) y) m \<noteq> NilMap"
  shows "\<exists>q'. assign4 q c y m d v = Inr q'"
proof -
  obtain i3 where i3: "assign (index (index (index q c) y) m) d v = Inr i3"
    using assign_ok[OF assms] by blast
  have n2: "index (index q c) y \<noteq> NilMap" using assms by (rule index_not_nil)
  obtain i2 where i2: "assign (index (index q c) y) m i3 = Inr i2"
    using assign_ok[OF n2] by blast
  have n1: "index q c \<noteq> NilMap" using n2 by (rule index_not_nil)
  obtain i1 where i1: "assign (index q c) y i2 = Inr i1"
    using assign_ok[OF n1] by blast
  have n0: "q \<noteq> NilMap" using n1 by (rule index_not_nil)
  obtain q' where q': "assign q c i1 = Inr q'"
    using assign_ok[OF n0] by blast
  show ?thesis using i3 i2 i1 q' by (simp add: assign4_def assign3_def assign2_def)
qed

lemma assign4_nil:
  assumes "index (index (index q c) y) m = NilMap"
  shows "assign4 q c y m d v = Inl AssignToEntryInNilMap"
  using assms by (simp add: assign4_def assign3_def assign2_def)

lemma Add_total_iff:
  "(\<exists>q'. Add q t c y m d = Inr q') \<longleftrightarrow> month_bucket q c y m \<noteq> NilMap"
  using assign4_ok[of q c y m d] assign4_nil[of q c y m d]
  by (cases "month_bucket q c y m = NilMap") (auto simp: Add_def month_bucket_def)

section \<open>Facts about the temperature folds\<close>

lemma stored_leaf: "stored q c y m d = (case leaf q c y m d of None \<Rightarrow> [] | Some ts \<Rightarrow> ts)"
  by (simp add: stored_def leaf_def index_slice_def)

lemma leaf_empty: "leaf (GoMap []) c y m d = None"
  by (simp add: leaf_def month_bucket_def)

lemma stored_empty: "stored (GoMap []) c y m d = []"
  by (simp add: stored_leaf leaf_empty)

lemma leaf_Init_Add:
  assumes i: "InitialiseForDate q c y m d = Inr q1" and a: "Add q1 v c y m d = Inr q2"
  shows "leaf q2 c' y' m' d' =
     (if c' = c \<and> y' = y \<and> m' = m \<and> d' = d then Some (stored q c y m d @ [v])
      else leaf q c' y' m' d')"
proof -
  have "stored q1 c y m d = stored q c y m d"
    by (simp add: stored_leaf leaf_InitialiseForDate[OF i])
  then show ?thesis
    using leaf_Add[OF a, of c' y' m' d']
    by (auto simp: leaf_InitialiseForDate[OF i] stored_def)
qed

lemma leaf_Init_only:
  assumes i: "InitialiseForDate q c y m d = Inr q1"
  shows "leaf q1 c' y' m' d' =
     (if c' = c \<and> y' = y \<and> m' = m \<and> d' = d then Some (stored q c y m d)
      else leaf q c' y' m' d')"
  by (auto simp: leaf_InitialiseForDate[OF i] stored_leaf)

lemma temperature_rows_at_simps [simp]:
  "temperature_rows_at c dt [] = []"
  "temperature_rows_at c dt (ScanError # rows) = temperature_rows_at c dt rows"
  "temperature_rows_at c dt (Scanned r # rows) =
     (if r_cname r = Some c \<and> r_t r = dt then r # temperature_rows_at c dt rows
      else temperature_rows_at c dt rows)"
  by (simp_all add: temperature_rows_at_def)

lemma temperature_samples_at_simps [simp]:
  "temperature_samples_at c dt [] = []"
  "temperature_samples_at c dt (ScanError # rows) = temperature_samples_at c dt rows"
  "temperature_samples_at c dt (Scanned r # rows) =
     (if r_cname r = Some c \<and> r_t r = dt
      then (case r_temp r of None \<Rightarrow> temperature_samples_at c dt rows
            | Some v \<Rightarrow> v # temperature_samples_at c dt rows)
      else temperature_samples_at c dt rows)"
  by (simp_all add: temperature_samples_at_def map_filter_simps split: option.splits)

lemma temperature_samples_at_no_rows:
  "temperature_rows_at c dt rows = [] \<Longrightarrow> temperature_samples_at c dt rows = []"
  by (simp add: temperature_samples_at_def map_filter_simps)

lemma leaf_MonthlyTemperature_rows:
  "MonthlyTemperature_rows temps rows = Inr q \<Longrightarrow>
   leaf q c y m d =
     (if temperature_rows_at c (y, m, d) rows = [] then leaf temps c y m d
      else Some (stored temps c y m d @ temperature_samples_at c (y, m, d) rows))"
proof (induction temps rows rule: MonthlyTemperature_rows.induct)
  case (1 temps)
  then show ?case by simp
next
  case (2 temps rows)
  then show ?case by simp
next
  case (3 temps r rows)
  show ?case
  proof (cases "r_cname r")
    case None
    then show ?thesis using 3 by simp
  next
    case (Some city)
    obtain y0 m0 d0 where dt: "r_t r = (y0, m0, d0)" by (cases "r_t r") auto
    from "3.prems" Some dt obtain temps1 where
      i: "InitialiseForDate temps city y0 m0 d0 = Inr temps1"
      by (auto split: sum.splits)
    show ?thesis
    proof (cases "r_temp r")
      case None
      with "3.prems" Some dt i have run: "MonthlyTemperature_rows temps1 rows = Inr q" by simp
      have ih: "leaf q c y m d =
        (if temperature_rows_at c (y, m, d) rows = [] then leaf temps1 c y m d
         else Some (stored temps1 c y m d @ temperature_samples_at c (y, m, d) rows))"
        using "3.IH"(2)[OF Some dt[symmetric] refl i None run] .
      show ?thesis
        unfolding ih using Some dt None
        by (auto simp: leaf_Init_only[OF i] stored_leaf temperature_samples_at_no_rows)
    next
      case (Some v)
      note v = Some
      from "3.prems" \<open>r_cname r = Some city\<close> dt i v obtain temps2 where
        a: "Add temps1 v city y0 m0 d0 = Inr temps2"
        and run: "MonthlyTemperature_rows temps2 rows = Inr q"
        by (auto split: sum.splits)
      have ih: "leaf q c y m d =
        (if temperature_rows_at c (y, m, d) rows = [] then leaf temps2 c y m d
         else Some (stored temps2 c y m d @ temperature_samples_at c (y, m, d) rows))"
        using "3.IH"(3)[OF \<open>r_cname r = Some city\<close> dt[symmetric] refl i v a run] .
      show ?thesis
        unfolding ih using \<open>r_cname r = Some city\<close> dt v
        by (auto simp: leaf_Init_Add[OF i a] stored_leaf temperature_samples_at_no_rows)
    qed
  qed
qed


lemma average_rows_at_simps [simp]:
  "average_rows_at c dt [] = []"
  "average_rows_at c dt (ScanError # rows) = average_rows_at c dt rows"
  "average_rows_at c dt (Scanned r # rows) =
     (if a_cname r = Some c \<and> a_t r = dt then r # average_rows_at c dt rows
      else average_rows_at c dt rows)"
  by (simp_all add: average_rows_at_def)

lemma average_samples_at_simps [simp]:
  "average_samples_at c dt [] = []"
  "average_samples_at c dt (ScanError # rows) = average_samples_at c dt rows"
  "average_samples_at c dt (Scanned r # rows) =
     (if a_cname r = Some c \<and> a_t r = dt
      then (case mid_sample r of None \<Rightarrow> average_samples_at c dt rows
            | Some v \<Rightarrow> v # average_samples_at c dt rows)
      else average_samples_at c dt rows)"
  by (simp_all add: average_samples_at_def map_filter_simps split: option.splits)

lemma average_samples_at_no_rows:
  "average_rows_at c dt rows = [] \<Longrightarrow> average_samples_at c dt rows = []"
  by (simp add: average_samples_at_def map_filter_simps)

lemma leaf_MonthlyAverageTemperature_rows:
  "MonthlyAverageTemperature_rows daily rows = Inr q \<Longrightarrow>
   leaf q c y m d =
     (if average_rows_at c (y, m, d) rows = [] then leaf daily c y m d
      else Some (stored daily c y m d @ average_samples_at c (y, m, d) rows))"
proof (induction daily rows rule: MonthlyAverageTemperature_rows.induct)
  case (1 daily)
  then show ?case by simp
next
  case (2 daily rows)
  then show ?case by simp
next
  case (3 daily r rows)
  show ?case
  proof (cases "a_cname r")
    case None
    then show ?thesis using 3 by simp
  next
    case (Some city)
    obtain y0 m0 d0 where dt: "a_t r = (y0, m0, d0)" by (cases "a_t r") auto
    from "3.prems" Some dt obtain daily1 where
      i: "InitialiseForDate daily city y0 m0 d0 = Inr daily1"
      by (auto split: sum.splits)
    show ?thesis
    proof (cases "a_templo r = None \<or> a_temphi r = None")
      case True
      with "3.prems" Some dt i have run: "MonthlyAverageTemperature_rows daily1 rows = Inr q"
        by auto
      have ih: "leaf q c y m d =
        (if average_rows_at c (y, m, d) rows = [] then leaf daily1 c y m d
         else Some (stored daily1 c y m d @ average_samples_at c (y, m, d) rows))"
        using "3.IH"(2)[OF Some dt[symmetric] refl i True run] .
      have ms: "mid_sample r = None" using True by (simp add: mid_sample_def)
      show ?thesis
        unfolding ih using Some dt ms
        by (auto simp: leaf_Init_only[OF i] stored_leaf average_samples_at_no_rows)
    next
      case False
      define v where "v = fdiv (fadd (the (a_templo r)) (the (a_temphi r))) (Fin 2)"
      from "3.prems" Some dt i False obtain daily2 where
        a: "Add daily1 v city y0 m0 d0 = Inr daily2"
        and run: "MonthlyAverageTemperature_rows daily2 rows = Inr q"
        by (auto simp: v_def split: sum.splits)
      have ih: "leaf q c y m d =
        (if average_rows_at c (y, m, d) rows = [] then leaf daily2 c y m d
         else Some (stored daily2 c y m d @ average_samples_at c (y, m, d) rows))"
        using "3.IH"(3)[OF Some dt[symmetric] refl i False a[unfolded v_def] run] .
      have ms: "mid_sample r = Some v" using False by (simp add: mid_sample_def v_def)
      show ?thesis
        unfolding ih using Some dt ms
        by (auto simp: leaf_Init_Add[OF i a] stored_leaf average_samples_at_no_rows)
    qed
  qed
qed

text \<open>Neither row loop panics on a well-formed map: the only failure is a failed Scan.\<close>

lemma MonthlyTemperature_rows_returns:
  "wellformed temps \<Longrightarrow>
   (ScanError \<in> set rows \<and> MonthlyTemperature_rows temps rows = Inl StorageError) \<or>
   (ScanError \<notin> set rows \<and> (\<exists>q. MonthlyTemperature_rows temps rows = Inr q \<and> wellformed q))"
proof (induction temps rows rule: MonthlyTemperature_rows.induct)
  case (1 temps)
  then show ?case by simp
next
  case (2 temps rows)
  then show ?case by simp
next
  case (3 temps r rows)
  show ?case
  proof (cases "r_cname r")
    case None
    then show ?thesis using 3 by simp
  next
    case (Some city)
    obtain y0 m0 d0 where dt: "r_t r = (y0, m0, d0)" by (cases "r_t r") auto
    obtain temps1 where i: "InitialiseForDate temps city y0 m0 d0 = Inr temps1"
      and w1: "wellformed temps1"
      using InitialiseForDate_wellformed[OF "3.prems"] by blast
    show ?thesis
    proof (cases "r_temp r")
      case None
      show ?thesis
        using "3.IH"(2)[OF Some dt[symmetric] refl i None w1] Some dt i None by simp
    next
      case (Some v)
      have "leaf temps1 city y0 m0 d0 \<noteq> None" by (simp add: leaf_InitialiseForDate[OF i])
      then obtain temps2 where a: "Add temps1 v city y0 m0 d0 = Inr temps2"
        and w2: "wellformed temps2"
        using Add_wellformed[OF w1] by blast
      show ?thesis
        using "3.IH"(3)[OF \<open>r_cname r = Some city\<close> dt[symmetric] refl i Some a w2]
          \<open>r_cname r = Some city\<close> dt i Some a by simp
    qed
  qed
qed

lemma MonthlyAverageTemperature_rows_returns:
  "wellformed daily \<Longrightarrow>
   (ScanError \<in> set rows \<and> MonthlyAverageTemperature_rows daily rows = Inl StorageError) \<or>
   (ScanError \<notin> set rows \<and> (\<exists>q. MonthlyAverageTemperature_rows daily rows = Inr q \<and> wellformed q))"
proof (induction daily rows rule: MonthlyAverageTemperature_rows.induct)
  case (1 daily)
  then show ?case by simp
next
  case (2 daily rows)
  then show ?case by simp
next
  case (3 daily r rows)
  show ?case
  proof (cases "a_cname r")
    case None
    then show ?thesis using 3 by simp
  next
    case (Some city)
    obtain y0 m0 d0 where dt: "a_t r = (y0, m0, d0)" by (cases "a_t r") auto
    obtain daily1 where i: "InitialiseForDate daily city y0 m0 d0 = Inr daily1"
      and w1: "wellformed daily1"
      using InitialiseForDate_wellformed[OF "3.prems"] by blast
    show ?thesis
    proof (cases "a_templo r = None \<or> a_temphi r = None")
      case True
      show ?thesis
        using "3.IH"(2)[OF Some dt[symmetric] refl i True w1] Some dt i True by auto
    next
      case False
      define v where "v = fdiv (fadd (the (a_templo r)) (the (a_temphi r))) (Fin 2)"
      have "leaf daily1 city y0 m0 d0 \<noteq> None" by (simp add: leaf_InitialiseForDate[OF i])
      then obtain daily2 where a: "Add daily1 v city y0 m0 d0 = Inr daily2"
        and w2: "wellformed daily2"
        using Add_wellformed[OF w1] by blast
      show ?thesis
        using "3.IH"(3)[OF Some dt[symmetric] refl i False a[unfolded v_def] w2]
          Some dt i False a by (auto simp: v_def)
    qed
  qed
qed


lemma nonempty_leaves_empty: "nonempty_leaves (GoMap [])"
  by (simp add: nonempty_leaves_def leaf_def month_bucket_def)

lemma nonempty_leaves_Init_Add:
  assumes "InitialiseForDate q c y m d = Inr q1" "Add q1 v c y m d = Inr q2" "nonempty_leaves q"
  shows "nonempty_leaves q2"
  using assms(3) unfolding nonempty_leaves_def
  by (auto simp: leaf_Init_Add[OF assms(1,2)] split: if_splits)

lemma year_months_nonempty:
  "year_months acc c y ms = Inr q \<Longrightarrow> nonempty_leaves acc \<Longrightarrow> nonempty_leaves q"
proof (induction acc c y ms rule: year_months.induct)
  case (1 acc c y)
  then show ?case by simp
next
  case (2 acc c y m month year)
  from "2.prems"(1) obtain q1 q2 where
    i: "InitialiseForDate acc c y m 0 = Inr q1" and
    a: "Add q1 (month_avg month) c y m 0 = Inr q2" and
    r: "year_months q2 c y year = Inr q"
    by (auto split: sum.splits)
  show ?case
    using "2.IH"[OF i a r] nonempty_leaves_Init_Add[OF i a "2.prems"(2)] by simp
qed

lemma city_years_nonempty:
  "city_years acc c ys = Inr q \<Longrightarrow> nonempty_leaves acc \<Longrightarrow> nonempty_leaves q"
proof (induction acc c ys rule: city_years.induct)
  case (1 acc c)
  then show ?case by simp
next
  case (2 acc c y year cities)
  from "2.prems"(1) obtain q1 where
    a: "year_months acc c y (entries year) = Inr q1" and r: "city_years q1 c cities = Inr q"
    by (auto split: sum.splits)
  show ?case
    using "2.IH"[OF a r] year_months_nonempty[OF a "2.prems"(2)] by simp
qed

lemma all_cities_nonempty:
  "all_cities acc cs = Inr q \<Longrightarrow> nonempty_leaves acc \<Longrightarrow> nonempty_leaves q"
proof (induction acc cs rule: all_cities.induct)
  case (1 acc)
  then show ?case by simp
next
  case (2 acc c cities rest)
  from "2.prems"(1) obtain q1 where
    a: "city_years acc c (entries cities) = Inr q1" and r: "all_cities q1 rest = Inr q"
    by (auto split: sum.splits)
  show ?case
    using "2.IH"[OF a r] city_years_nonempty[OF a "2.prems"(2)] by simp
qed

lemma year_months_returns:
  "wellformed acc \<Longrightarrow> \<exists>q. year_months acc c y ms = Inr q \<and> wellformed q"
proof (induction acc c y ms rule: year_months.induct)
  case (1 acc c y)
  then show ?case by simp
next
  case (2 acc c y m month year)
  obtain q1 where i: "InitialiseForDate acc c y m 0 = Inr q1" and w1: "wellformed q1"
    using InitialiseForDate_wellformed[OF "2.prems"] by blast
  have "leaf q1 c y m 0 \<noteq> None" by (simp add: leaf_InitialiseForDate[OF i])
  then obtain q2 where a: "Add q1 (month_avg month) c y m 0 = Inr q2" and w2: "wellformed q2"
    using Add_wellformed[OF w1] by blast
  show ?case using "2.IH"[OF i a w2] i a by simp
qed

lemma city_years_returns:
  "wellformed acc \<Longrightarrow> \<exists>q. city_years acc c ys = Inr q \<and> wellformed q"
proof (induction acc c ys rule: city_years.induct)
  case (1 acc c)
  then show ?case by simp
next
  case (2 acc c y year cities)
  obtain q1 where a: "year_months acc c y (entries year) = Inr q1" and w1: "wellformed q1"
    using year_months_returns[OF "2.prems"] by blast
  show ?case using "2.IH"[OF a w1] a by simp
qed

lemma all_cities_returns:
  "wellformed acc \<Longrightarrow> \<exists>q. all_cities acc cs = Inr q \<and> wellformed q"
proof (induction acc cs rule: all_cities.induct)
  case (1 acc)
  then show ?case by simp
next
  case (2 acc c cities rest)
  obtain q1 where a: "city_years acc c (entries cities) = Inr q1" and w1: "wellformed q1"
    using city_years_returns[OF "2.prems"] by blast
  show ?case using "2.IH"[OF a w1] a by simp
qed

text \<open>What the averaging loop computes for a month of finite samples: the sum of all
  samples of the month over their number, over the number of day buckets; not a number
  when the month has no sample.\<close>

lemma day_samples_Fin:
  "day_samples (Fin a, n) (map Fin xs) = (Fin (a + sum_list xs), n + length xs)"
  by (induction xs arbitrary: a n) (simp_all add: add.assoc)

lemma month_days_Fin:
  "month_days (Fin a, spm, spd) (map (\<lambda>(d, xs). (d, map Fin xs)) ds) =
     (Fin (a + sum_list (concat (map snd ds))), spm + length ds,
      spd + length (concat (map snd ds)))"
  by (induction ds arbitrary: a spm spd) (auto simp: day_samples_Fin add.assoc)

lemma month_avg_Fin:
  assumes "concat (map snd ds) \<noteq> []"
  shows "month_avg (GoMap (map (\<lambda>(d, xs). (d, map Fin xs)) ds)) =
     Fin (sum_list (concat (map snd ds)) / real (length (concat (map snd ds))) / real (length ds))"
proof -
  have "ds \<noteq> []" using assms by auto
  then show ?thesis
    using assms by (simp add: month_avg_def month_days_Fin float64_of_int_def)
qed

lemma month_avg_no_samples:
  assumes "concat (map snd ds) = []"
  shows "month_avg (GoMap (map (\<lambda>(d, xs). (d, map Fin xs)) ds)) = NaN"
proof -
  have "month_days (Fin 0, 0, 0) (map (\<lambda>(d, xs). (d, map Fin xs)) ds) = (Fin 0, length ds, 0)"
    unfolding month_days_Fin using assms by (simp del: concat_eq_Nil_conv)
  then show ?thesis by (simp add: month_avg_def float64_of_int_def)
qed

section \<open>Facts about the freshness lookup, the handler and the write-back\<close>

lemma quo_rem: "quo a b * b + rem a b = a"
  by (simp add: rem_def)

text \<open>In real numbers \<^verbatim>\<open>Minutes\<close> is the duration over a minute, so the handler's test
  \<^verbatim>\<open>delta.Minutes() < cacheTTLMinutes\<close> is \<open>now - t < 1 minute\<close>. (In \<^verbatim>\<open>float64\<close> the
  test has the same truth value: below a minute the whole part is 0 and the rounded
  fraction is below 1, from a minute on the whole part is at least 1.)\<close>

lemma Minutes_eq: "Minutes d = real_of_int d / 60000000000"
proof -
  have "real_of_int d = real_of_int (quo d Minute) * 60000000000 + real_of_int (rem d Minute)"
    using quo_rem[of d Minute] by (simp add: Minute_def rem_def)
  then show ?thesis by (simp add: Minutes_def field_simps)
qed

lemma Minutes_fresh: "Minutes d < cacheTTLMinutes \<longleftrightarrow> d < Minute"
  by (simp add: Minutes_eq cacheTTLMinutes_def Minute_def)

lemma Sub_fresh: "Minutes (Sub now t) < cacheTTLMinutes \<longleftrightarrow> now - t < Minute"
  by (auto simp: Minutes_fresh Sub_def Minute_def)

text \<open>The switch of \<^verbatim>\<open>FetchLocationWeather\<close> never reaches its default case: the case
  \<^verbatim>\<open>case err\<close> equals the tag for every value of the tag, the nil error included. The
  function returns a nil \<^verbatim>\<open>QueryResult\<close> on every input.\<close>

lemma FetchLocationWeather_cases:
  "FetchLocationWeather e d cityName =
     (None, if fetch_scan_fails e then Some StorageError else None)"
  by (auto simp: FetchLocationWeather_def FetchLocationWeather_scan_def
      split: prod.splits list.splits)

lemma ReportLocationWeather_refreshes:
  "req_method r = ''GET'' \<Longrightarrow> req_city r = Some cityName \<Longrightarrow> \<not> fetch_scan_fails e \<Longrightarrow>
   ReportLocationWeather e d r = refresh_weather e d cityName"
  by (simp add: ReportLocationWeather_def FetchLocationWeather_cases parseRows_def)

lemma gateway_called_iff:
  "out_gateway_called (ReportLocationWeather e d r) \<longleftrightarrow>
     req_method r = ''GET'' \<and> req_city r \<noteq> None \<and> \<not> fetch_scan_fails e"
  by (auto simp: ReportLocationWeather_def FetchLocationWeather_cases parseRows_def
      refresh_weather_def split: option.splits sum.splits prod.splits)

text \<open>How the transaction ends, by the first call that fails.\<close>

lemma earlier_failures_roll_back:
  assumes "\<not> begin_fails e"
    and "prepare_upsert_fails e \<or> scan_upsert_fails e \<or> prepare_insert_fails e"
  shows "UpdateCachedLocationWeather e d cityName tempMin tempMax labels =
     ((None, Some StorageError), d, RolledBack)"
  using assms
  by (auto simp: UpdateCachedLocationWeather_def deferred_def split: prod.splits)

lemma insert_scan_failure_commits:
  assumes "\<not> begin_fails e" "\<not> prepare_upsert_fails e" "\<not> scan_upsert_fails e"
    "\<not> prepare_insert_fails e" "scan_insert_fails e" "\<not> commit_fails e"
  shows "UpdateCachedLocationWeather e d cityName tempMin tempMax labels =
     ((None, Some StorageError), fst (upsert_location d cityName), Committed)"
  using assms
  by (auto simp: UpdateCachedLocationWeather_def deferred_def split: prod.splits)

section \<open>The ensure-path operation and Add\<close>

text \<open>
  Claim C8. \<^verbatim>\<open>InitialiseForDate\<close> is idempotent. On a well-formed result (no nil map, no
  key twice) the call returns; whenever a call returns, a second call for the same
  (city, year, month, day) returns the very same map; after the call the leaf of the path
  exists and holds the samples stored there before (none, when the call created it);
  every sample list stored anywhere in the map before the call is still stored,
  unchanged, after it; and no key is duplicated on any level, so no branch exists twice.
\<close>

theorem InitialiseForDate_idempotent:
  "(wellformed q \<longrightarrow> (\<exists>q1. InitialiseForDate q city y mo d = Inr q1)) \<and>
   (\<forall>q1. InitialiseForDate q city y mo d = Inr q1 \<longrightarrow>
       InitialiseForDate q1 city y mo d = Inr q1 \<and>
       leaf q1 city y mo d = Some (stored q city y mo d) \<and>
       (\<forall>c' y' m' d' ts. leaf q c' y' m' d' = Some ts \<longrightarrow> leaf q1 c' y' m' d' = Some ts) \<and>
       (wellformed q \<longrightarrow> wellformed q1))"
proof (intro conjI impI allI)
  assume "wellformed q"
  then show "\<exists>q1. InitialiseForDate q city y mo d = Inr q1"
    using InitialiseForDate_wellformed by blast
next
  fix q1 assume i: "InitialiseForDate q city y mo d = Inr q1"
  show "InitialiseForDate q1 city y mo d = Inr q1"
    using i by (rule InitialiseForDate_twice)
next
  fix q1 assume i: "InitialiseForDate q city y mo d = Inr q1"
  show "leaf q1 city y mo d = Some (stored q city y mo d)"
    by (simp add: leaf_Init_only[OF i])
next
  fix q1 c' y' m' d' ts
  assume i: "InitialiseForDate q city y mo d = Inr q1" and l: "leaf q c' y' m' d' = Some ts"
  show "leaf q1 c' y' m' d' = Some ts"
    using l by (auto simp: leaf_InitialiseForDate[OF i])
next
  fix q1 assume i: "InitialiseForDate q city y mo d = Inr q1" and w: "wellformed q"
  show "wellformed q1"
    using InitialiseForDate_wellformed[OF w, of city y mo d] i by auto
qed

theorem InitialiseForDate_idempotent_witness:
  "wellformed (GoMap [(''Reno'', GoMap [(2019, GoMap [(3, GoMap [(5, [Fin 280])])])])]) \<and>
   InitialiseForDate (GoMap [(''Reno'', GoMap [(2019, GoMap [(3, GoMap [(5, [Fin 280])])])])])
       ''Reno'' 2019 3 6
     = Inr (GoMap [(''Reno'', GoMap [(2019, GoMap [(3, GoMap [(5, [Fin 280]), (6, [])])])])]) \<and>
   InitialiseForDate
       (GoMap [(''Reno'', GoMap [(2019, GoMap [(3, GoMap [(5, [Fin 280]), (6, [])])])])])
       ''Reno'' 2019 3 6
     = Inr (GoMap [(''Reno'', GoMap [(2019, GoMap [(3, GoMap [(5, [Fin 280]), (6, [])])])])]) \<and>
   leaf (GoMap [(''Reno'', GoMap [(2019, GoMap [(3, GoMap [(5, [Fin 280])])])])])
       ''Reno'' 2019 3 5 = Some [Fin 280] \<and>
   leaf (GoMap [(''Reno'', GoMap [(2019, GoMap [(3, GoMap [(5, [Fin 280]), (6, [])])])])])
       ''Reno'' 2019 3 5 = Some [Fin 280] \<and>
   wellformed (GoMap [(''Reno'', GoMap [(2019, GoMap [(3, GoMap [(5, [Fin 280]), (6, [])])])])])"
proof -
  let ?q = "GoMap [(''Reno'', GoMap [(2019, GoMap [(3, GoMap [(5, [Fin 280])])])])]"
  have w: "wellformed ?q"
    by (simp add: wellformed_def wf_years_def wf_months_def good_def)
  have i: "InitialiseForDate ?q ''Reno'' 2019 3 6
     = Inr (GoMap [(''Reno'', GoMap [(2019, GoMap [(3, GoMap [(5, [Fin 280]), (6, [])])])])])"
    by (simp add: InitialiseForDate_def index_def assign4_def assign3_def assign2_def)
  have l: "leaf ?q ''Reno'' 2019 3 5 = Some [Fin 280]"
    by (simp add: leaf_def month_bucket_def index_def)
  from InitialiseForDate_idempotent[of ?q "''Reno''" 2019 3 6] w i l
  show ?thesis by simp
qed

text \<open>
  Claim C10. \<^verbatim>\<open>Add\<close> needs the path to exist. When the maps down to the month bucket
  \<^verbatim>\<open>q[city][y][mo]\<close> have been created, \<^verbatim>\<open>Add\<close> returns, the leaf at the path holds the
  samples it held before followed by the new one, and every other leaf is as before.
  When that bucket is nil (the city, the year or the month is missing) \<^verbatim>\<open>Add\<close> is an
  assignment into a nil map and panics. After a call of \<^verbatim>\<open>InitialiseForDate\<close> for the
  path that returned, the bucket is not nil. (A missing day key alone is no panic: the
  assignment creates it.)
\<close>

theorem Add_requires_path:
  "(month_bucket q city y mo \<noteq> NilMap \<longrightarrow>
      (\<exists>q'. Add q temp city y mo d = Inr q' \<and>
         (\<forall>c' y' m' d'. leaf q' c' y' m' d' =
            (if c' = city \<and> y' = y \<and> m' = mo \<and> d' = d
             then Some (stored q city y mo d @ [temp])
             else leaf q c' y' m' d')))) \<and>
   (month_bucket q city y mo = NilMap \<longrightarrow> Add q temp city y mo d = Inl AssignToEntryInNilMap) \<and>
   (\<forall>q1. InitialiseForDate q city y mo d = Inr q1 \<longrightarrow> month_bucket q1 city y mo \<noteq> NilMap)"
proof (intro conjI impI allI)
  assume a: "month_bucket q city y mo \<noteq> NilMap"
  then obtain q' where q': "Add q temp city y mo d = Inr q'"
    using Add_total_iff by blast
  show "\<exists>q'. Add q temp city y mo d = Inr q' \<and>
         (\<forall>c' y' m' d'. leaf q' c' y' m' d' =
            (if c' = city \<and> y' = y \<and> m' = mo \<and> d' = d
             then Some (stored q city y mo d @ [temp])
             else leaf q c' y' m' d'))"
    using q' leaf_Add[OF q'] by (auto simp: stored_def)
next
  assume "month_bucket q city y mo = NilMap"
  then show "Add q temp city y mo d = Inl AssignToEntryInNilMap"
    by (simp add: Add_def month_bucket_def assign4_nil)
next
  fix q1 assume i: "InitialiseForDate q city y mo d = Inr q1"
  have "leaf q1 city y mo d \<noteq> None" by (simp add: leaf_InitialiseForDate[OF i])
  then show "month_bucket q1 city y mo \<noteq> NilMap"
    by (auto simp: leaf_def)
qed

theorem Add_requires_path_witness:
  "month_bucket (GoMap [(''Reno'', GoMap [(2019, GoMap [(3, GoMap [(5, [Fin 280])])])])])
       ''Reno'' 2019 3 \<noteq> NilMap \<and>
   Add (GoMap [(''Reno'', GoMap [(2019, GoMap [(3, GoMap [(5, [Fin 280])])])])])
       (Fin 281) ''Reno'' 2019 3 5
     = Inr (GoMap [(''Reno'', GoMap [(2019, GoMap [(3, GoMap [(5, [Fin 280, Fin 281])])])])]) \<and>
   month_bucket (GoMap [(''Reno'', GoMap [(2019, GoMap [(3, GoMap [(5, [Fin 280])])])])])
       ''Reno'' 2019 4 = NilMap \<and>
   Add (GoMap [(''Reno'', GoMap [(2019, GoMap [(3, GoMap [(5, [Fin 280])])])])])
       (Fin 281) ''Reno'' 2019 4 5
     = Inl AssignToEntryInNilMap \<and>
   InitialiseForDate (GoMap []) ''Reno'' 2019 3 5
     = Inr (GoMap [(''Reno'', GoMap [(2019, GoMap [(3, GoMap [(5, [])])])])]) \<and>
   month_bucket (GoMap [(''Reno'', GoMap [(2019, GoMap [(3, GoMap [(5, [])])])])])
       ''Reno'' 2019 3 \<noteq> NilMap"
proof -
  let ?q = "GoMap [(''Reno'', GoMap [(2019, GoMap [(3, GoMap [(5, [Fin 280])])])])]"
  have b: "month_bucket ?q ''Reno'' 2019 3 \<noteq> NilMap"
    by (simp add: month_bucket_def index_def)
  have n: "month_bucket ?q ''Reno'' 2019 4 = NilMap"
    by (simp add: month_bucket_def index_def)
  have a: "Add ?q (Fin 281) ''Reno'' 2019 3 5
     = Inr (GoMap [(''Reno'', GoMap [(2019, GoMap [(3, GoMap [(5, [Fin 280, Fin 281])])])])])"
    by (simp add: Add_def index_def index_slice_def assign4_def assign3_def assign2_def)
  have i: "InitialiseForDate (GoMap []) ''Reno'' 2019 3 5
     = Inr (GoMap [(''Reno'', GoMap [(2019, GoMap [(3, GoMap [(5, [])])])])])"
    by (simp add: InitialiseForDate_def index_def assign4_def assign3_def assign2_def)
  from Add_requires_path[of ?q "''Reno''" 2019 3 "Fin 281" 5]
       Add_requires_path[of ?q "''Reno''" 2019 4 "Fin 281" 5]
       Add_requires_path[of "GoMap []" "''Reno''" 2019 3 "Fin 281" 5] b n a i
  show ?thesis by simp
qed

section \<open>The bucketing folds and the monthly average\<close>

lemmas fold_eval =
  InitialiseForDate_def Add_def assign4_def assign3_def assign2_def
  index_def index_slice_def float64_of_int_def

text \<open>
  Claim C3, as stated, fails: both row loops call \<^verbatim>\<open>InitialiseForDate\<close> before they
  look at the temperature, so a row with a city name and a null temperature creates its
  bucket path and leaves an empty sample list when no other row fills it.
\<close>

theorem bucket_created_for_null_temperature:
  "MonthlyTemperature
     \<lparr>q_temp_low = Rows [Scanned \<lparr>r_cname = Some ''Reno'', r_id = Some 1, r_t = (2019, 3, 1),
                                   r_temp = None, r_lid = Some 1\<rparr>],
      q_temp_high = Rows []\<rparr> FilterLows
     = Inr (GoMap [(''Reno'', GoMap [(2019, GoMap [(3, GoMap [(1, [])])])])]) \<and>
   leaf (GoMap [(''Reno'', GoMap [(2019, GoMap [(3, GoMap [(1, [])])])])]) ''Reno'' 2019 3 1
     = Some [] \<and>
   MonthlyAverageTemperature_rows (GoMap [])
     [Scanned \<lparr>a_cname = Some ''Reno'', a_id = Some 1, a_t = (2019, 3, 1),
               a_templo = None, a_temphi = Some (Fin 280), a_lid = Some 1\<rparr>]
     = Inr (GoMap [(''Reno'', GoMap [(2019, GoMap [(3, GoMap [(1, [])])])])])"
  by (simp add: MonthlyTemperature_def Query_temperature_def FilterLows_def fold_eval
      leaf_def month_bucket_def)

text \<open>
  Claim C3, amended. In a run of \<^verbatim>\<open>MonthlyTemperature\<close> with a valid filter the fold
  returns unless a Scan fails, and in the map it returns a leaf is present at
  (city, year, month, day) exactly when some scanned row has that non-null city name
  and that date; the leaf holds the non-null temperatures of those rows, in row order.
  So a leaf is non-empty whenever every row of its city and date has a temperature, and
  rows with a null city name create nothing. The daily buckets of
  \<^verbatim>\<open>MonthlyAverageTemperature\<close> are built the same way from the mid-points of the rows
  that have both temperatures, and every leaf of the map \<^verbatim>\<open>MonthlyAverageTemperature\<close>
  returns is non-empty.
\<close>

theorem bucketing_leaves:
  "((f = FilterLows \<and> q_temp_low store = Rows rows \<or>
     f = FilterHighs \<and> q_temp_high store = Rows rows) \<longrightarrow>
      (ScanError \<notin> set rows \<longrightarrow> (\<exists>q. MonthlyTemperature store f = Inr q)) \<and>
      (\<forall>q. MonthlyTemperature store f = Inr q \<longrightarrow>
         (\<forall>c y m d.
            leaf q c y m d =
              (if temperature_rows_at c (y, m, d) rows = [] then None
               else Some (temperature_samples_at c (y, m, d) rows)) \<and>
            ((\<forall>r \<in> set (temperature_rows_at c (y, m, d) rows). r_temp r \<noteq> None) \<longrightarrow>
               leaf q c y m d \<noteq> Some [])))) \<and>
   (\<forall>daily. MonthlyAverageTemperature_rows (GoMap []) arows = Inr daily \<longrightarrow>
      (\<forall>c y m d.
         leaf daily c y m d =
           (if average_rows_at c (y, m, d) arows = [] then None
            else Some (average_samples_at c (y, m, d) arows)) \<and>
         ((\<forall>r \<in> set (average_rows_at c (y, m, d) arows). mid_sample r \<noteq> None) \<longrightarrow>
            leaf daily c y m d \<noteq> Some []))) \<and>
   (ScanError \<notin> set arows \<longrightarrow> (\<exists>q. MonthlyAverageTemperature (Rows arows) = Inr q)) \<and>
   (\<forall>q. MonthlyAverageTemperature (Rows arows) = Inr q \<longrightarrow>
      (\<forall>c y m d. leaf q c y m d \<noteq> Some []))"
proof (intro conjI impI allI)
  assume f: "f = FilterLows \<and> q_temp_low store = Rows rows \<or>
     f = FilterHighs \<and> q_temp_high store = Rows rows"
  then have run: "MonthlyTemperature store f = MonthlyTemperature_rows (GoMap []) rows"
    by (auto simp: MonthlyTemperature_def Query_temperature_def FilterLows_def FilterHighs_def)
  {
    assume "ScanError \<notin> set rows"
    then show "\<exists>q. MonthlyTemperature store f = Inr q"
      using MonthlyTemperature_rows_returns[OF wellformed_empty, of rows] run by auto
  }
  fix q c y m d
  assume "MonthlyTemperature store f = Inr q"
  then have q: "MonthlyTemperature_rows (GoMap []) rows = Inr q" using run by simp
  show l: "leaf q c y m d =
      (if temperature_rows_at c (y, m, d) rows = [] then None
       else Some (temperature_samples_at c (y, m, d) rows))"
    by (simp add: leaf_MonthlyTemperature_rows[OF q] stored_empty leaf_empty)
  assume all: "\<forall>r \<in> set (temperature_rows_at c (y, m, d) rows). r_temp r \<noteq> None"
  show "leaf q c y m d \<noteq> Some []"
  proof (cases "temperature_rows_at c (y, m, d) rows")
    case Nil
    then show ?thesis by (simp add: l)
  next
    case (Cons r rs)
    then have "r_temp r \<noteq> None" using all by simp
    then show ?thesis
      using Cons by (auto simp: l temperature_samples_at_def map_filter_simps)
  qed
next
  fix daily c y m d
  assume q: "MonthlyAverageTemperature_rows (GoMap []) arows = Inr daily"
  show l: "leaf daily c y m d =
      (if average_rows_at c (y, m, d) arows = [] then None
       else Some (average_samples_at c (y, m, d) arows))"
    by (simp add: leaf_MonthlyAverageTemperature_rows[OF q] stored_empty leaf_empty)
  assume all: "\<forall>r \<in> set (average_rows_at c (y, m, d) arows). mid_sample r \<noteq> None"
  show "leaf daily c y m d \<noteq> Some []"
  proof (cases "average_rows_at c (y, m, d) arows")
    case Nil
    then show ?thesis by (simp add: l)
  next
    case (Cons r rs)
    then have "mid_sample r \<noteq> None" using all by simp
    then show ?thesis
      using Cons by (auto simp: l average_samples_at_def map_filter_simps)
  qed
next
  assume n: "ScanError \<notin> set arows"
  obtain daily where d: "MonthlyAverageTemperature_rows (GoMap []) arows = Inr daily"
    using MonthlyAverageTemperature_rows_returns[OF wellformed_empty, of arows] n by auto
  show "\<exists>q. MonthlyAverageTemperature (Rows arows) = Inr q"
    using all_cities_returns[OF wellformed_empty, of "entries daily"] d
    by (auto simp: MonthlyAverageTemperature_def)
next
  fix q c y m d
  assume "MonthlyAverageTemperature (Rows arows) = Inr q"
  then obtain daily where "all_cities (GoMap []) (entries daily) = Inr q"
    by (auto simp: MonthlyAverageTemperature_def split: sum.splits)
  then have "nonempty_leaves q"
    using all_cities_nonempty nonempty_leaves_empty by blast
  then show "leaf q c y m d \<noteq> Some []"
    unfolding nonempty_leaves_def by blast
qed

theorem bucketing_leaves_witness:
  "q_temp_low \<lparr>q_temp_low = Rows
         [Scanned \<lparr>r_cname = Some ''Reno'', r_id = Some 1, r_t = (2019, 3, 1),
                   r_temp = Some (Fin 280), r_lid = Some 1\<rparr>,
          Scanned \<lparr>r_cname = None, r_id = Some 2, r_t = (2019, 3, 1),
                   r_temp = Some (Fin 290), r_lid = Some 2\<rparr>,
          Scanned \<lparr>r_cname = Some ''Reno'', r_id = Some 1, r_t = (2019, 3, 1),
                   r_temp = Some (Fin 281), r_lid = Some 1\<rparr>],
        q_temp_high = QueryError\<rparr>
     = Rows
         [Scanned \<lparr>r_cname = Some ''Reno'', r_id = Some 1, r_t = (2019, 3, 1),
                   r_temp = Some (Fin 280), r_lid = Some 1\<rparr>,
          Scanned \<lparr>r_cname = None, r_id = Some 2, r_t = (2019, 3, 1),
                   r_temp = Some (Fin 290), r_lid = Some 2\<rparr>,
          Scanned \<lparr>r_cname = Some ''Reno'', r_id = Some 1, r_t = (2019, 3, 1),
                   r_temp = Some (Fin 281), r_lid = Some 1\<rparr>] \<and>
   MonthlyTemperature
      \<lparr>q_temp_low = Rows
         [Scanned \<lparr>r_cname = Some ''Reno'', r_id = Some 1, r_t = (2019, 3, 1),
                   r_temp = Some (Fin 280), r_lid = Some 1\<rparr>,
          Scanned \<lparr>r_cname = None, r_id = Some 2, r_t = (2019, 3, 1),
                   r_temp = Some (Fin 290), r_lid = Some 2\<rparr>,
          Scanned \<lparr>r_cname = Some ''Reno'', r_id = Some 1, r_t = (2019, 3, 1),
                   r_temp = Some (Fin 281), r_lid = Some 1\<rparr>],
        q_temp_high = QueryError\<rparr> FilterLows
     = Inr (GoMap [(''Reno'', GoMap [(2019, GoMap [(3, GoMap [(1, [Fin 280, Fin 281])])])])]) \<and>
   leaf (GoMap [(''Reno'', GoMap [(2019, GoMap [(3, GoMap [(1, [Fin 280, Fin 281])])])])])
      ''Reno'' 2019 3 1 = Some [Fin 280, Fin 281] \<and>
   leaf (GoMap [(''Reno'', GoMap [(2019, GoMap [(3, GoMap [(1, [Fin 280, Fin 281])])])])])
      ''Reno'' 2019 3 1 \<noteq> Some [] \<and>
   MonthlyAverageTemperature_rows (GoMap [])
      [Scanned \<lparr>a_cname = Some ''Reno'', a_id = Some 1, a_t = (2019, 3, 1),
                a_templo = Some (Fin 270), a_temphi = Some (Fin 280), a_lid = Some 1\<rparr>]
     = Inr (GoMap [(''Reno'', GoMap [(2019, GoMap [(3, GoMap [(1, [Fin 275])])])])]) \<and>
   leaf (GoMap [(''Reno'', GoMap [(2019, GoMap [(3, GoMap [(1, [Fin 275])])])])])
      ''Reno'' 2019 3 1 \<noteq> Some [] \<and>
   MonthlyAverageTemperature (Rows
      [Scanned \<lparr>a_cname = Some ''Reno'', a_id = Some 1, a_t = (2019, 3, 1),
                a_templo = Some (Fin 270), a_temphi = Some (Fin 280), a_lid = Some 1\<rparr>])
     = Inr (GoMap [(''Reno'', GoMap [(2019, GoMap [(3, GoMap [(0, [Fin 275])])])])]) \<and>
   leaf (GoMap [(''Reno'', GoMap [(2019, GoMap [(3, GoMap [(0, [Fin 275])])])])])
      ''Reno'' 2019 3 0 \<noteq> Some []"
proof -
  let ?rows = "[Scanned \<lparr>r_cname = Some ''Reno'', r_id = Some 1, r_t = (2019, 3, 1),
                   r_temp = Some (Fin 280), r_lid = Some 1\<rparr>,
          Scanned \<lparr>r_cname = None, r_id = Some 2, r_t = (2019, 3, 1),
                   r_temp = Some (Fin 290), r_lid = Some 2\<rparr>,
          Scanned \<lparr>r_cname = Some ''Reno'', r_id = Some 1, r_t = (2019, 3, 1),
                   r_temp = Some (Fin 281), r_lid = Some 1\<rparr>]"
  let ?store = "\<lparr>q_temp_low = Rows ?rows, q_temp_high = QueryError\<rparr>"
  let ?arows = "[Scanned \<lparr>a_cname = Some ''Reno'', a_id = Some 1, a_t = (2019, 3, 1),
                a_templo = Some (Fin 270), a_temphi = Some (Fin 280), a_lid = Some 1\<rparr>]"
  have s: "q_temp_low ?store = Rows ?rows" by simp
  have m: "MonthlyTemperature ?store FilterLows
     = Inr (GoMap [(''Reno'', GoMap [(2019, GoMap [(3, GoMap [(1, [Fin 280, Fin 281])])])])])"
    by (simp add: MonthlyTemperature_def Query_temperature_def FilterLows_def fold_eval)
  have d: "MonthlyAverageTemperature_rows (GoMap []) ?arows
     = Inr (GoMap [(''Reno'', GoMap [(2019, GoMap [(3, GoMap [(1, [Fin 275])])])])])"
    by (simp add: fold_eval)
  have a: "MonthlyAverageTemperature (Rows ?arows)
     = Inr (GoMap [(''Reno'', GoMap [(2019, GoMap [(3, GoMap [(0, [Fin 275])])])])])"
    by (simp add: MonthlyAverageTemperature_def month_avg_def fold_eval)
  have l: "leaf (GoMap [(''Reno'', GoMap [(2019, GoMap [(3, GoMap [(1, [Fin 280, Fin 281])])])])])
      ''Reno'' 2019 3 1 = Some [Fin 280, Fin 281]"
    by (simp add: leaf_def month_bucket_def index_def)
  have l2: "leaf (GoMap [(''Reno'', GoMap [(2019, GoMap [(3, GoMap [(1, [Fin 275])])])])])
      ''Reno'' 2019 3 1 \<noteq> Some []"
    by (simp add: leaf_def month_bucket_def index_def)
  from bucketing_leaves[of FilterLows ?store ?rows ?arows] s m d a l l2
  show ?thesis by simp
qed

text \<open>
  Claim C1: the stored monthly value is not the two-stage average. For the samples
  10 and 20 on day 1 and 30 on day 2 of one month, \<^verbatim>\<open>MonthlyAverageTemperature\<close> stores
  60 / 3 / 2 = 10 at day-bucket 0: the sum of all samples of the month, divided by the
  number of samples of the month and then by the number of days. The two-stage average
  of the specification is 22.5 (and the flat mean is 20).
\<close>

theorem monthly_average_is_not_two_stage:
  "MonthlyAverageTemperature (Rows
     [Scanned \<lparr>a_cname = Some ''Reno'', a_id = Some 1, a_t = (2019, 3, 1),
               a_templo = Some (Fin 10), a_temphi = Some (Fin 10), a_lid = Some 1\<rparr>,
      Scanned \<lparr>a_cname = Some ''Reno'', a_id = Some 1, a_t = (2019, 3, 1),
               a_templo = Some (Fin 20), a_temphi = Some (Fin 20), a_lid = Some 1\<rparr>,
      Scanned \<lparr>a_cname = Some ''Reno'', a_id = Some 1, a_t = (2019, 3, 2),
               a_templo = Some (Fin 30), a_temphi = Some (Fin 30), a_lid = Some 1\<rparr>])
     = Inr (GoMap [(''Reno'', GoMap [(2019, GoMap [(3, GoMap [(0, [Fin 10])])])])]) \<and>
   MonthlyAverageTemperature_rows (GoMap [])
     [Scanned \<lparr>a_cname = Some ''Reno'', a_id = Some 1, a_t = (2019, 3, 1),
               a_templo = Some (Fin 10), a_temphi = Some (Fin 10), a_lid = Some 1\<rparr>,
      Scanned \<lparr>a_cname = Some ''Reno'', a_id = Some 1, a_t = (2019, 3, 1),
               a_templo = Some (Fin 20), a_temphi = Some (Fin 20), a_lid = Some 1\<rparr>,
      Scanned \<lparr>a_cname = Some ''Reno'', a_id = Some 1, a_t = (2019, 3, 2),
               a_templo = Some (Fin 30), a_temphi = Some (Fin 30), a_lid = Some 1\<rparr>]
     = Inr (GoMap [(''Reno'', GoMap [(2019, GoMap [(3,
              GoMap [(1, [Fin 10, Fin 20]), (2, [Fin 30])])])])]) \<and>
   month_avg (GoMap [(1, [Fin 10, Fin 20]), (2, [Fin 30])]) = Fin 10 \<and>
   two_stage_average (GoMap [(1, [Fin 10, Fin 20]), (2, [Fin 30])]) = Fin 22.5"
  by (simp add: MonthlyAverageTemperature_def month_avg_def two_stage_average_def mean_def
      fold_eval)

text \<open>
  Claim C4: the first division of the averaging loop can divide by zero. A month whose
  only row has a null low temperature gets its day bucket (created before the null
  check) but no sample: \<^verbatim>\<open>samplesPerMonth\<close> is 1, \<^verbatim>\<open>samplesPerDay\<close> is 0, and the stored
  value is 0 / 0 = NaN.
\<close>

theorem monthly_average_divides_by_zero:
  "MonthlyAverageTemperature (Rows
     [Scanned \<lparr>a_cname = Some ''Reno'', a_id = Some 1, a_t = (2019, 3, 1),
               a_templo = None, a_temphi = Some (Fin 280), a_lid = Some 1\<rparr>])
     = Inr (GoMap [(''Reno'', GoMap [(2019, GoMap [(3, GoMap [(0, [NaN])])])])]) \<and>
   month_days (Fin 0, 0, 0) (entries (GoMap [(1, [])])) = (Fin 0, 1, 0) \<and>
   month_avg (GoMap [(1, [])]) = NaN"
  by (simp add: MonthlyAverageTemperature_def month_avg_def fold_eval)

section \<open>The write-back transaction\<close>

lemmas store_eval =
  UpdateCachedLocationWeather_def upsert_location_def insert_weather_def deferred_def
  scan_location_def scan_weather_def reno_only_def reno_lima_def quiet_env_def snow_def Let_def

text \<open>
  Claim C2: the write-back is not atomic under a failure of the Reading insert. With
  the city Reno stored with counter 1, a write-back whose upsert succeeds and whose
  insert fails at its Scan returns the error, ends the transaction with \<^verbatim>\<open>Commit\<close> and
  leaves the counter 2 in the store with no new reading: the deferred closure reads the
  function's \<^verbatim>\<open>err\<close>, and the failing Scan binds its error to a variable of its own. The
  failure one call earlier (the Prepare of the insert) assigns the function's \<^verbatim>\<open>err\<close> and
  is rolled back, the store unchanged.
\<close>

theorem insert_failure_is_committed:
  "UpdateCachedLocationWeather
       ((quiet_env 10000000000 10000000001 (Inr (Some snow)))\<lparr>scan_insert_fails := True\<rparr>)
       reno_only ''Reno'' (Fin 270) (Fin 280) [''Snow''] =
     ((None, Some StorageError),
      \<lparr>locations = [\<lparr>loc_id = 1, loc_city_name = ''Reno'', loc_query_count = Some 2\<rparr>],
       weather =
         [\<lparr>w_location_id = 1, w_labels = [''Clear''], w_temp_high = Some (Fin 278),
           w_temp_low = Some (Fin 274), w_at_time = 0\<rparr>],
       next_id = 2\<rparr>,
      Committed) \<and>
   locations reno_only =
     [\<lparr>loc_id = 1, loc_city_name = ''Reno'', loc_query_count = Some 1\<rparr>] \<and>
   UpdateCachedLocationWeather
       ((quiet_env 10000000000 10000000001 (Inr (Some snow)))\<lparr>prepare_insert_fails := True\<rparr>)
       reno_only ''Reno'' (Fin 270) (Fin 280) [''Snow''] =
     ((None, Some StorageError), reno_only, RolledBack)"
  by (simp add: store_eval)

text \<open>
  Claim C9. When \<^verbatim>\<open>Begin\<close> fails, \<^verbatim>\<open>UpdateCachedLocationWeather\<close> returns a nil
  \<^verbatim>\<open>QueryResult\<close> and a nil error: the failure is in \<^verbatim>\<open>txnError\<close>, the function returns its
  variable \<^verbatim>\<open>err\<close>, which nothing has assigned yet. No transaction is open and the store
  is as before.
\<close>

theorem begin_failure_returns_nil_error:
  "begin_fails e \<Longrightarrow>
   UpdateCachedLocationWeather e d cityName tempMin tempMax labels =
     ((None, None), d, NoTransaction)"
  by (simp add: UpdateCachedLocationWeather_def)

theorem begin_failure_returns_nil_error_witness:
  "begin_fails ((quiet_env 10000000000 10000000001 (Inr (Some snow)))\<lparr>begin_fails := True\<rparr>) \<and>
   UpdateCachedLocationWeather
       ((quiet_env 10000000000 10000000001 (Inr (Some snow)))\<lparr>begin_fails := True\<rparr>)
       reno_only ''Reno'' (Fin 270) (Fin 280) [''Snow''] =
     ((None, None), reno_only, NoTransaction)"
proof -
  let ?e = "(quiet_env 10000000000 10000000001 (Inr (Some snow)))\<lparr>begin_fails := True\<rparr>"
  have b: "begin_fails ?e" by (simp add: quiet_env_def)
  from begin_failure_returns_nil_error[OF b, of reno_only "''Reno''" "Fin 270" "Fin 280" "[''Snow'']"] b
  show ?thesis by simp
qed

section \<open>The freshness lookup and the weather request\<close>

lemmas handler_eval =
  ReportLocationWeather_def FetchLocationWeather_def FetchLocationWeather_scan_def
  FetchLocationWeather_query_def parseRows_def refresh_weather_def send_weather_def
  Float64_def current_reading_def readings_of_def

text \<open>
  Claim C5: the freshness lookup does not return the location's own latest reading.
  In a store where Reno has a reading at time 0 and Lima one at 120 s,
  \<^verbatim>\<open>FetchLocationWeather\<close> for Reno returns no reading at all (a nil \<^verbatim>\<open>QueryResult\<close> with a
  nil error, as on every input), and the row its query selects and scans joins Reno
  with the reading of Lima: the newest reading of the whole table. The current reading
  of Reno is the one at time 0.
\<close>

theorem lookup_is_not_own_latest_reading:
  "FetchLocationWeather (quiet_env 130000000000 130000000001 (Inr (Some snow)))
       reno_lima ''Reno'' = (None, None) \<and>
   FetchLocationWeather_query reno_lima ''Reno'' =
     [(\<lparr>loc_id = 1, loc_city_name = ''Reno'', loc_query_count = Some 1\<rparr>,
       \<lparr>w_location_id = 2, w_labels = [''Rain''], w_temp_high = Some (Fin 290),
          w_temp_low = Some (Fin 288), w_at_time = 120000000000\<rparr>)] \<and>
   current_reading reno_lima ''Reno'' =
     Some \<lparr>w_location_id = 1, w_labels = [''Clear''], w_temp_high = Some (Fin 278),
          w_temp_low = Some (Fin 274), w_at_time = 0\<rparr>"
  by (simp add: handler_eval store_eval)

text \<open>
  Claim C6: a fresh reading does not keep the handler from the provider. Reno has one
  reading, taken at time 0; a request 10 s later (less than a minute) calls the
  gateway, writes a second reading and answers with it. The handler never sees a
  cached reading, because \<^verbatim>\<open>FetchLocationWeather\<close> returns none.
\<close>

theorem fresh_reading_still_refreshes:
  "Minutes (Sub 10000000000 0) < cacheTTLMinutes \<and>
   current_reading reno_only ''Reno'' =
     Some \<lparr>w_location_id = 1, w_labels = [''Clear''], w_temp_high = Some (Fin 278),
          w_temp_low = Some (Fin 274), w_at_time = 0\<rparr> \<and>
   ReportLocationWeather (quiet_env 10000000000 10000000001 (Inr (Some snow))) reno_only
       \<lparr>req_method = ''GET'', req_city = Some ''Reno''\<rparr> =
     \<lparr>out_db =
        \<lparr>locations = [\<lparr>loc_id = 1, loc_city_name = ''Reno'', loc_query_count = Some 2\<rparr>],
         weather =
           [\<lparr>w_location_id = 1, w_labels = [''Clear''], w_temp_high = Some (Fin 278),
             w_temp_low = Some (Fin 274), w_at_time = 0\<rparr>,
            \<lparr>w_location_id = 1, w_labels = [''Snow''], w_temp_high = Some (Fin 280),
             w_temp_low = Some (Fin 270), w_at_time = 10000000001\<rparr>],
         next_id = 2\<rparr>,
      out_response = SendWeather ''Reno'' [''Snow''] (Fin 270) (Fin 280) (Fin 275) 10000000001,
      out_gateway_called = True\<rparr>"
  by (simp add: Sub_fresh Minute_def handler_eval store_eval)

text \<open>
  Claim C7. In every run of the handler in which the gateway is called and answers with
  a status code other than 200, the store after the request is the store before it, and
  the response is the message of the provider when there is one and the unknown-reason
  text otherwise.
\<close>

theorem non_success_status_writes_nothing:
  "out_gateway_called (ReportLocationWeather e d r) \<Longrightarrow>
   gateway e = Inr (Some location) \<Longrightarrow> Cod location \<noteq> 200 \<Longrightarrow>
   out_db (ReportLocationWeather e d r) = d \<and>
   out_response (ReportLocationWeather e d r) =
     SendMessage (case Message location of
                    Some m \<Rightarrow> m
                  | None \<Rightarrow> ''failed to communicate with the openweather api: unknown reason'')"
  by (auto simp: gateway_called_iff ReportLocationWeather_refreshes refresh_weather_def
      split: option.splits)

theorem non_success_status_writes_nothing_witness:
  "out_gateway_called
     (ReportLocationWeather
        (quiet_env 10000000000 10000000001
           (Inr (Some \<lparr>Cod = 404, Message = Some ''city not found'', Main = None, Weather = []\<rparr>)))
        reno_only \<lparr>req_method = ''GET'', req_city = Some ''Oslo''\<rparr>) \<and>
   out_db
     (ReportLocationWeather
        (quiet_env 10000000000 10000000001
           (Inr (Some \<lparr>Cod = 404, Message = Some ''city not found'', Main = None, Weather = []\<rparr>)))
        reno_only \<lparr>req_method = ''GET'', req_city = Some ''Oslo''\<rparr>) = reno_only \<and>
   out_response
     (ReportLocationWeather
        (quiet_env 10000000000 10000000001
           (Inr (Some \<lparr>Cod = 404, Message = Some ''city not found'', Main = None, Weather = []\<rparr>)))
        reno_only \<lparr>req_method = ''GET'', req_city = Some ''Oslo''\<rparr>) =
     SendMessage ''city not found'' \<and>
   out_response
     (ReportLocationWeather
        (quiet_env 10000000000 10000000001
           (Inr (Some \<lparr>Cod = 500, Message = None, Main = None, Weather = []\<rparr>)))
        reno_only \<lparr>req_method = ''GET'', req_city = Some ''Oslo''\<rparr>) =
     SendMessage ''failed to communicate with the openweather api: unknown reason''"
proof -
  let ?l = "\<lparr>Cod = 404, Message = Some ''city not found'', Main = None, Weather = []\<rparr>"
  let ?l' = "\<lparr>Cod = 500, Message = None, Main = None, Weather = []\<rparr>"
  let ?r = "\<lparr>req_method = ''GET'', req_city = Some ''Oslo''\<rparr>"
  let ?e = "quiet_env 10000000000 10000000001 (Inr (Some ?l))"
  let ?e' = "quiet_env 10000000000 10000000001 (Inr (Some ?l'))"
  have c: "out_gateway_called (ReportLocationWeather ?e reno_only ?r)"
    by (simp add: gateway_called_iff quiet_env_def)
  have c': "out_gateway_called (ReportLocationWeather ?e' reno_only ?r)"
    by (simp add: gateway_called_iff quiet_env_def)
  have g: "gateway ?e = Inr (Some ?l)" by (simp add: quiet_env_def)
  have g': "gateway ?e' = Inr (Some ?l')" by (simp add: quiet_env_def)
  from non_success_status_writes_nothing[OF c g] non_success_status_writes_nothing[OF c' g'] c
  show ?thesis by simp
qed

end
